theory Spec2Isabelle
  imports Complex_Main "HOL-Library.Sublist"
begin

section \<open>Python primitives used by the models\<close>

text \<open>
  Python's \<^verbatim>\<open>float\<close> fields are modelled as \<^typ>\<open>real\<close>: the arithmetic is exact, and
  rounding, infinities and NaN are outside the model. The one operation of the source that
  can raise is true division, which raises \<^verbatim>\<open>ZeroDivisionError\<close> on a zero divisor.
\<close>

datatype py_error = ZeroDivisionError

definition py_truediv :: "real \<Rightarrow> real \<Rightarrow> py_error + real" where
  "py_truediv a b = (if b = 0 then Inl ZeroDivisionError else Inr (a / b))"

text \<open>\<^verbatim>\<open>sum(xs)\<close>: the builtin adds from the left, starting at 0.\<close>

fun py_sum_from :: "real \<Rightarrow> real list \<Rightarrow> real" where
  "py_sum_from acc [] = acc"
| "py_sum_from acc (x # xs) = py_sum_from (acc + x) xs"

definition py_sum :: "real list \<Rightarrow> real" where
  "py_sum xs = py_sum_from 0 xs"

text \<open>
  \<^verbatim>\<open>sum(f(x) for x in xs)\<close> where \<open>f\<close> may raise: the generator is consumed from the
  left and the first exception leaves the whole expression.
\<close>

fun py_sum_gen_from :: "real \<Rightarrow> ('a \<Rightarrow> py_error + real) \<Rightarrow> 'a list \<Rightarrow> py_error + real" where
  "py_sum_gen_from acc f [] = Inr acc"
| "py_sum_gen_from acc f (x # xs) =
     (case f x of Inl e \<Rightarrow> Inl e | Inr v \<Rightarrow> py_sum_gen_from (acc + v) f xs)"

definition py_sum_gen :: "('a \<Rightarrow> py_error + real) \<Rightarrow> 'a list \<Rightarrow> py_error + real" where
  "py_sum_gen f xs = py_sum_gen_from 0 f xs"

text \<open>\<^verbatim>\<open>next((x for x in xs if p(x)), None)\<close>: the first element that satisfies \<open>p\<close>.\<close>

fun py_next :: "('a \<Rightarrow> bool) \<Rightarrow> 'a list \<Rightarrow> 'a option" where
  "py_next p [] = None"
| "py_next p (x # xs) = (if p x then Some x else py_next p xs)"

text \<open>
  \<^verbatim>\<open>list(set(xs))\<close>: the elements of \<open>xs\<close>, each once. Python's iteration order over a
  set of strings depends on their hashes; the model fixes one order, and the theorems
  below speak of the result's elements and of their distinctness only.
\<close>

definition py_list_set :: "'a list \<Rightarrow> 'a list" where
  "py_list_set xs = remdups xs"

text \<open>
  \<^verbatim>\<open>str.lower()\<close>, on the ASCII range: the letters \<^verbatim>\<open>A\<close> to \<^verbatim>\<open>Z\<close> move to \<^verbatim>\<open>a\<close> to
  \<^verbatim>\<open>z\<close>, every other character stays.
\<close>

definition lower_char :: "char \<Rightarrow> char" where
  "lower_char c =
     (case map_of (zip ''ABCDEFGHIJKLMNOPQRSTUVWXYZ'' ''abcdefghijklmnopqrstuvwxyz'') c of
        None \<Rightarrow> c
      | Some d \<Rightarrow> d)"

definition py_lower :: "string \<Rightarrow> string" where
  "py_lower s = map lower_char s"

text \<open>\<^verbatim>\<open>k in s\<close> on strings: \<open>k\<close> occurs in \<open>s\<close> as a contiguous substring.\<close>

fun py_in :: "string \<Rightarrow> string \<Rightarrow> bool" where
  "py_in k [] = (k = [])"
| "py_in k (c # cs) = (prefix k (c # cs) \<or> py_in k cs)"

text \<open>\<^verbatim>\<open>any(p(x) for x in xs)\<close>.\<close>

fun py_any :: "('a \<Rightarrow> bool) \<Rightarrow> 'a list \<Rightarrow> bool" where
  "py_any p [] = False"
| "py_any p (x # xs) = (if p x then True else py_any p xs)"

section \<open>Quiz entities (models/quiz.py)\<close>

record question =
  question_id :: int
  question_text :: string
  correct_answer :: string
  points :: real
  mapped_topic :: "string option"
  secondary_topics :: "string list"

record student_response =
  r_question_id :: int
  response_text :: string
  points_earned :: real
  is_correct :: bool

definition get_score_percentage :: "student_response \<Rightarrow> question \<Rightarrow> py_error + real" where
  "get_score_percentage r q =
     (if points q = 0 then Inr 0
      else (case py_truediv (points_earned r) (points q) of
              Inl e \<Rightarrow> Inl e
            | Inr v \<Rightarrow> Inr (v * 100)))"

record student =
  student_id :: string
  name :: string
  section_of :: string
  responses :: "student_response list"

definition get_total_score :: "student \<Rightarrow> question list \<Rightarrow> real" where
  "get_total_score s questions = py_sum (map points_earned (responses s))"

definition get_total_possible :: "student \<Rightarrow> question list \<Rightarrow> real" where
  "get_total_possible s questions = py_sum (map points questions)"

definition get_percentage :: "student \<Rightarrow> question list \<Rightarrow> py_error + real" where
  "get_percentage s questions =
     (let total = get_total_possible s questions in
      if total = 0 then Inr 0
      else (case py_truediv (get_total_score s questions) total of
              Inl e \<Rightarrow> Inl e
            | Inr v \<Rightarrow> Inr (v * 100)))"

text \<open>
  The loop of \<^verbatim>\<open>get_weak_topics\<close>, with the list \<^verbatim>\<open>weak_topics\<close> as accumulator. The
  test \<^verbatim>\<open>question and question.mapped_topic\<close> is Python truthiness: a \<^verbatim>\<open>Question\<close>
  object is always true, \<^verbatim>\<open>None\<close> is false, and a topic that is \<^verbatim>\<open>None\<close> or the empty
  string is false.
\<close>

fun weak_topics_loop ::
  "student_response list \<Rightarrow> question list \<Rightarrow> real \<Rightarrow> string list \<Rightarrow> py_error + string list" where
  "weak_topics_loop [] questions threshold weak_topics = Inr weak_topics"
| "weak_topics_loop (response # rest) questions threshold weak_topics =
     (case py_next (\<lambda>q. question_id q = r_question_id response) questions of
        None \<Rightarrow> weak_topics_loop rest questions threshold weak_topics
      | Some question \<Rightarrow>
          (case mapped_topic question of
             None \<Rightarrow> weak_topics_loop rest questions threshold weak_topics
           | Some topic \<Rightarrow>
               if topic = [] then weak_topics_loop rest questions threshold weak_topics
               else
                 (case get_score_percentage response question of
                    Inl e \<Rightarrow> Inl e
                  | Inr score_pct \<Rightarrow>
                      if score_pct < threshold
                      then weak_topics_loop rest questions threshold (weak_topics @ [topic])
                      else weak_topics_loop rest questions threshold weak_topics)))"

definition get_weak_topics :: "student \<Rightarrow> question list \<Rightarrow> real \<Rightarrow> py_error + string list" where
  "get_weak_topics s questions threshold =
     (case weak_topics_loop (responses s) questions threshold [] of
        Inl e \<Rightarrow> Inl e
      | Inr weak_topics \<Rightarrow> Inr (py_list_set weak_topics))"

text \<open>The number that \<^verbatim>\<open>get_percentage\<close> returns, with the sums written out.\<close>

definition percentage_value :: "student \<Rightarrow> question list \<Rightarrow> real" where
  "percentage_value s qs =
     (if sum_list (map points qs) = 0 then 0
      else sum_list (map points_earned (responses s)) / sum_list (map points qs) * 100)"

text \<open>
  What one pass of the loop body appends to \<^verbatim>\<open>weak_topics\<close>; used to state the loop's
  result in closed form.
\<close>

definition response_topics :: "question list \<Rightarrow> real \<Rightarrow> student_response \<Rightarrow> string list" where
  "response_topics qs th r =
     (case py_next (\<lambda>q. question_id q = r_question_id r) qs of
        None \<Rightarrow> []
      | Some q \<Rightarrow>
          (case mapped_topic q of
             None \<Rightarrow> []
           | Some t \<Rightarrow>
               if t \<noteq> [] \<and> (if points q = 0 then 0 else points_earned r / points q * 100) < th
               then [t] else []))"

text \<open>
  The class \<^verbatim>\<open>Quiz\<close>. The date is a time stamp; no operation below reads it.
\<close>

record quiz =
  quiz_name :: string
  course_name :: string
  quiz_date :: int
  questions :: "question list"
  students :: "student list"

definition add_question :: "quiz \<Rightarrow> question \<Rightarrow> quiz" where
  "add_question qz q = qz\<lparr>questions := questions qz @ [q]\<rparr>"

definition add_student :: "quiz \<Rightarrow> student \<Rightarrow> quiz" where
  "add_student qz s = qz\<lparr>students := students qz @ [s]\<rparr>"

definition get_question_by_id :: "quiz \<Rightarrow> int \<Rightarrow> question option" where
  "get_question_by_id qz qid = py_next (\<lambda>q. question_id q = qid) (questions qz)"

definition get_student_by_id :: "quiz \<Rightarrow> string \<Rightarrow> student option" where
  "get_student_by_id qz sid = py_next (\<lambda>s. student_id s = sid) (students qz)"

definition get_class_average :: "quiz \<Rightarrow> py_error + real" where
  "get_class_average qz =
     (if students qz = [] then Inr 0
      else (case py_sum_gen (\<lambda>s. get_percentage s (questions qz)) (students qz) of
              Inl e \<Rightarrow> Inl e
            | Inr total_percentage \<Rightarrow>
                py_truediv total_percentage (real (length (students qz)))))"

definition get_students_by_section :: "quiz \<Rightarrow> string \<Rightarrow> student list" where
  "get_students_by_section qz sec = filter (\<lambda>s. section_of s = sec) (students qz)"

definition get_section_average :: "quiz \<Rightarrow> string \<Rightarrow> py_error + real" where
  "get_section_average qz sec =
     (let section_students = get_students_by_section qz sec in
      if section_students = [] then Inr 0
      else (case py_sum_gen (\<lambda>s. get_percentage s (questions qz)) section_students of
              Inl e \<Rightarrow> Inl e
            | Inr total_percentage \<Rightarrow>
                py_truediv total_percentage (real (length section_students))))"

definition get_all_sections :: "quiz \<Rightarrow> string list" where
  "get_all_sections qz = py_list_set (map section_of (students qz))"

section \<open>Syllabus entities (models/syllabus.py)\<close>

record topic =
  topic_name :: string
  description :: "string option"
  week :: "int option"
  subtopics :: "string list"

text \<open>
  \<^verbatim>\<open>contains_keyword\<close>: the three tests in the order of the source. The second one,
  \<^verbatim>\<open>self.description and ...\<close>, needs a description that is neither \<^verbatim>\<open>None\<close> nor empty.
\<close>

definition contains_keyword :: "topic \<Rightarrow> string \<Rightarrow> bool" where
  "contains_keyword t keyword =
     (let keyword_lower = py_lower keyword in
      if py_in keyword_lower (py_lower (topic_name t)) then True
      else if (case description t of
                 None \<Rightarrow> False
               | Some d \<Rightarrow> d \<noteq> [] \<and> py_in keyword_lower (py_lower d)) then True
      else py_any (\<lambda>sub. py_in keyword_lower (py_lower sub)) (subtopics t))"

record syllabus =
  syllabus_course_name :: string
  course_code :: string
  topics :: "topic list"
  raw_text :: string

definition add_topic :: "syllabus \<Rightarrow> topic \<Rightarrow> syllabus" where
  "add_topic syl t = syl\<lparr>topics := topics syl @ [t]\<rparr>"

definition get_topic_by_name :: "syllabus \<Rightarrow> string \<Rightarrow> topic option" where
  "get_topic_by_name syl n = py_next (\<lambda>t. py_lower (topic_name t) = py_lower n) (topics syl)"

definition search_topics :: "syllabus \<Rightarrow> string \<Rightarrow> topic list" where
  "search_topics syl keyword = filter (\<lambda>t. contains_keyword t keyword) (topics syl)"

definition get_all_topic_names :: "syllabus \<Rightarrow> string list" where
  "get_all_topic_names syl = map topic_name (topics syl)"

section \<open>Sample data\<close>

definition mk_question :: "int \<Rightarrow> real \<Rightarrow> string option \<Rightarrow> question" where
  "mk_question qid pts tp =
     \<lparr>question_id = qid, question_text = [], correct_answer = [], points = pts,
      mapped_topic = tp, secondary_topics = []\<rparr>"

definition mk_response :: "int \<Rightarrow> real \<Rightarrow> student_response" where
  "mk_response qid earned =
     \<lparr>r_question_id = qid, response_text = [], points_earned = earned, is_correct = False\<rparr>"

definition mk_student :: "string \<Rightarrow> string \<Rightarrow> student_response list \<Rightarrow> student" where
  "mk_student sid sec rs = \<lparr>student_id = sid, name = sid, section_of = sec, responses = rs\<rparr>"

definition ex_questions :: "question list" where
  "ex_questions = [mk_question 1 10 (Some ''Recursion''), mk_question 2 10 (Some ''Arrays'')]"

definition ex_s1 :: student where
  "ex_s1 = mk_student ''S1'' ''A'' [mk_response 1 4, mk_response 2 9]"

definition ex_full :: student where
  "ex_full = mk_student ''S2'' ''A'' [mk_response 1 10, mk_response 2 10]"

definition ex_half :: student where
  "ex_half = mk_student ''S3'' ''B'' [mk_response 1 5, mk_response 2 5]"

definition ex_quiz :: quiz where
  "ex_quiz =
     \<lparr>quiz_name = ''Quiz 1'', course_name = ''CS101'', quiz_date = 0,
      questions = ex_questions, students = [ex_full, ex_half]\<rparr>"

definition ex_topic_loops :: topic where
  "ex_topic_loops =
     \<lparr>topic_name = ''Control Flow'', description = Some ''Branching and iteration'',
      week = Some 2, subtopics = [''If Statements'', ''For Loops'']\<rparr>"

definition ex_topic_functions :: topic where
  "ex_topic_functions =
     \<lparr>topic_name = ''Functions'', description = None, week = None, subtopics = []\<rparr>"

definition ex_syllabus :: syllabus where
  "ex_syllabus =
     \<lparr>syllabus_course_name = ''CS101'', course_code = [],
      topics = [ex_topic_loops, ex_topic_functions], raw_text = []\<rparr>"

definition cx_questions :: "question list" where
  "cx_questions = [mk_question 1 10 (Some [])]"

definition cx_student :: student where
  "cx_student = mk_student ''S9'' ''A'' [mk_response 1 0]"

definition ex_empty_quiz :: quiz where
  "ex_empty_quiz =
     \<lparr>quiz_name = ''Quiz 0'', course_name = ''CS101'', quiz_date = 0,
      questions = ex_questions, students = []\<rparr>"

section \<open>Objects in a store\<close>

text \<open>
  The classes of the two modules are ordinary Python classes: their instances and the lists
  they hold are mutable and shared by reference. For what a call does to them, the objects
  live in a store, a list of objects addressed by position. An object holds its numbers and
  strings by value (they are immutable in Python) and its lists by address. A list object
  holds either strings (\<^verbatim>\<open>List[str]\<close>) or addresses of objects.
\<close>

type_synonym addr = nat

datatype obj =
  OStrs "string list"
| ORefs "addr list"
| OQuestion int string string real "string option" addr
| OResponse int string real bool
| OStudent string string string addr
| OQuiz string string int addr addr
| OTopic string "string option" "int option" addr
| OSyllabus string string addr string

type_synonym heap = "obj list"

text \<open>
  Besides the exceptions of the arithmetic, a dereference of an address that is not in the
  store, or an attribute read on an object of another class, ends the call with
  \<^verbatim>\<open>TypeError\<close> (for \<^verbatim>\<open>AttributeError\<close> as well).
\<close>

datatype py_exception = Raised py_error | TypeError

text \<open>
  A piece of Python code is a function from the store before it to its outcome and the
  store after it; an exception keeps the store as it was when it was raised.
\<close>

type_synonym 'a prog = "heap \<Rightarrow> (py_exception + 'a) \<times> heap"

definition py_return :: "'a \<Rightarrow> 'a prog" where
  "py_return x = (\<lambda>h. (Inr x, h))"

definition py_raise :: "py_exception \<Rightarrow> 'a prog" where
  "py_raise e = (\<lambda>h. (Inl e, h))"

definition py_bind :: "'a prog \<Rightarrow> ('a \<Rightarrow> 'b prog) \<Rightarrow> 'b prog" where
  "py_bind m f = (\<lambda>h. case m h of (Inl e, h') \<Rightarrow> (Inl e, h') | (Inr x, h') \<Rightarrow> f x h')"

definition load :: "addr \<Rightarrow> obj prog" where
  "load a = (\<lambda>h. if a < length h then (Inr (h ! a), h) else (Inl TypeError, h))"

definition alloc :: "obj \<Rightarrow> addr prog" where
  "alloc ob = (\<lambda>h. (Inr (length h), h @ [ob]))"

definition store :: "addr \<Rightarrow> obj \<Rightarrow> unit prog" where
  "store a ob = (\<lambda>h. if a < length h then (Inr (), h[a := ob]) else (Inl TypeError, h))"

definition truediv :: "real \<Rightarrow> real \<Rightarrow> real prog" where
  "truediv a b = (case py_truediv a b of Inl e \<Rightarrow> py_raise (Raised e) | Inr v \<Rightarrow> py_return v)"

text \<open>Attribute reads. \<^verbatim>\<open>question_id\<close> is an attribute of questions and of responses.\<close>

fun attr_question_id :: "obj \<Rightarrow> int prog" where
  "attr_question_id (OQuestion qid txt ans pts tp sec) = py_return qid"
| "attr_question_id (OResponse qid txt earned ok) = py_return qid"
| "attr_question_id ob = py_raise TypeError"

fun attr_points :: "obj \<Rightarrow> real prog" where
  "attr_points (OQuestion qid txt ans pts tp sec) = py_return pts"
| "attr_points ob = py_raise TypeError"

fun attr_mapped_topic :: "obj \<Rightarrow> string option prog" where
  "attr_mapped_topic (OQuestion qid txt ans pts tp sec) = py_return tp"
| "attr_mapped_topic ob = py_raise TypeError"

fun attr_points_earned :: "obj \<Rightarrow> real prog" where
  "attr_points_earned (OResponse qid txt earned ok) = py_return earned"
| "attr_points_earned ob = py_raise TypeError"

fun attr_student_id :: "obj \<Rightarrow> string prog" where
  "attr_student_id (OStudent sid nm sec rl) = py_return sid"
| "attr_student_id ob = py_raise TypeError"

fun attr_section :: "obj \<Rightarrow> string prog" where
  "attr_section (OStudent sid nm sec rl) = py_return sec"
| "attr_section ob = py_raise TypeError"

fun attr_responses :: "obj \<Rightarrow> addr prog" where
  "attr_responses (OStudent sid nm sec rl) = py_return rl"
| "attr_responses ob = py_raise TypeError"

fun attr_questions :: "obj \<Rightarrow> addr prog" where
  "attr_questions (OQuiz nm cn d ql sl) = py_return ql"
| "attr_questions ob = py_raise TypeError"

fun attr_students :: "obj \<Rightarrow> addr prog" where
  "attr_students (OQuiz nm cn d ql sl) = py_return sl"
| "attr_students ob = py_raise TypeError"

fun attr_name :: "obj \<Rightarrow> string prog" where
  "attr_name (OTopic nm d w sl) = py_return nm"
| "attr_name (OStudent sid nm sec rl) = py_return nm"
| "attr_name (OQuiz nm cn d ql sl) = py_return nm"
| "attr_name ob = py_raise TypeError"

fun attr_description :: "obj \<Rightarrow> string option prog" where
  "attr_description (OTopic nm d w sl) = py_return d"
| "attr_description ob = py_raise TypeError"

fun attr_subtopics :: "obj \<Rightarrow> addr prog" where
  "attr_subtopics (OTopic nm d w sl) = py_return sl"
| "attr_subtopics ob = py_raise TypeError"

fun attr_topics :: "obj \<Rightarrow> addr prog" where
  "attr_topics (OSyllabus cn cc tpl raw) = py_return tpl"
| "attr_topics ob = py_raise TypeError"

text \<open>An attribute read \<^verbatim>\<open>x.field\<close> on the object at an address.\<close>

definition getattr :: "addr \<Rightarrow> (obj \<Rightarrow> 'a prog) \<Rightarrow> 'a prog" where
  "getattr a field = py_bind (load a) field"

text \<open>The items of a list object, and \<^verbatim>\<open>list.append\<close>.\<close>

fun items_refs :: "obj \<Rightarrow> addr list prog" where
  "items_refs (ORefs xs) = py_return xs"
| "items_refs ob = py_raise TypeError"

fun items_strs :: "obj \<Rightarrow> string list prog" where
  "items_strs (OStrs xs) = py_return xs"
| "items_strs ob = py_raise TypeError"

definition load_refs :: "addr \<Rightarrow> addr list prog" where
  "load_refs a = py_bind (load a) items_refs"

definition load_strs :: "addr \<Rightarrow> string list prog" where
  "load_strs a = py_bind (load a) items_strs"

definition append_ref :: "addr \<Rightarrow> addr \<Rightarrow> unit prog" where
  "append_ref l x = py_bind (load_refs l) (\<lambda>xs. store l (ORefs (xs @ [x])))"

definition append_str :: "addr \<Rightarrow> string \<Rightarrow> unit prog" where
  "append_str l x = py_bind (load_strs l) (\<lambda>xs. store l (OStrs (xs @ [x])))"

text \<open>
  Loops over the items of a list, read when the loop starts: a \<^verbatim>\<open>for\<close> statement, the sum
  of a generator, \<^verbatim>\<open>next(..., None)\<close> of a filtering generator, and the two list
  comprehensions, which build a new list object by appending.
\<close>

fun for_each :: "('a \<Rightarrow> unit prog) \<Rightarrow> 'a list \<Rightarrow> unit prog" where
  "for_each body [] = py_return ()"
| "for_each body (x # xs) = py_bind (body x) (\<lambda>u. for_each body xs)"

fun sum_gen :: "('a \<Rightarrow> real prog) \<Rightarrow> 'a list \<Rightarrow> real \<Rightarrow> real prog" where
  "sum_gen f [] acc = py_return acc"
| "sum_gen f (x # xs) acc = py_bind (f x) (\<lambda>v. sum_gen f xs (acc + v))"

fun next_gen :: "('a \<Rightarrow> bool prog) \<Rightarrow> 'a list \<Rightarrow> 'a option prog" where
  "next_gen p [] = py_return None"
| "next_gen p (x # xs) = py_bind (p x) (\<lambda>b. if b then py_return (Some x) else next_gen p xs)"

definition comp_refs :: "(addr \<Rightarrow> bool prog) \<Rightarrow> addr list \<Rightarrow> addr prog" where
  "comp_refs p xs =
     py_bind (alloc (ORefs [])) (\<lambda>l.
     py_bind (for_each (\<lambda>x. py_bind (p x) (\<lambda>b. if b then append_ref l x else py_return ())) xs)
       (\<lambda>u. py_return l))"

definition comp_strs :: "(addr \<Rightarrow> string prog) \<Rightarrow> addr list \<Rightarrow> addr prog" where
  "comp_strs f xs =
     py_bind (alloc (OStrs [])) (\<lambda>l.
     py_bind (for_each (\<lambda>x. py_bind (f x) (\<lambda>s. append_str l s)) xs)
       (\<lambda>u. py_return l))"

text \<open>
  \<^verbatim>\<open>list(set(...))\<close> of a list object of strings: a new list object with each string once.
  The set in between is not kept in the store; where the source builds the set from a
  generator (\<^verbatim>\<open>get_all_sections\<close>), the strings generated are collected in a list object
  first.
\<close>

definition list_of_set :: "addr \<Rightarrow> addr prog" where
  "list_of_set l = py_bind (load_strs l) (\<lambda>xs. alloc (OStrs (py_list_set xs)))"

subsection \<open>The methods, on the store\<close>

definition h_get_score_percentage :: "addr \<Rightarrow> addr \<Rightarrow> real prog" where
  "h_get_score_percentage self question =
     py_bind (getattr question attr_points) (\<lambda>pts.
       if pts = 0 then py_return 0
       else py_bind (getattr self attr_points_earned) (\<lambda>earned.
            py_bind (getattr question attr_points) (\<lambda>pts'.
            py_bind (truediv earned pts') (\<lambda>v. py_return (v * 100)))))"

definition h_get_total_score :: "addr \<Rightarrow> addr \<Rightarrow> real prog" where
  "h_get_total_score self qlist =
     py_bind (getattr self attr_responses) (\<lambda>rl.
     py_bind (load_refs rl) (\<lambda>rs.
     sum_gen (\<lambda>r. getattr r attr_points_earned) rs 0))"

definition h_get_total_possible :: "addr \<Rightarrow> addr \<Rightarrow> real prog" where
  "h_get_total_possible self qlist =
     py_bind (load_refs qlist) (\<lambda>qs.
     sum_gen (\<lambda>q. getattr q attr_points) qs 0)"

definition h_get_percentage :: "addr \<Rightarrow> addr \<Rightarrow> real prog" where
  "h_get_percentage self qlist =
     py_bind (h_get_total_possible self qlist) (\<lambda>total.
       if total = 0 then py_return 0
       else py_bind (h_get_total_score self qlist) (\<lambda>score.
            py_bind (truediv score total) (\<lambda>v. py_return (v * 100))))"

definition weak_topics_body :: "addr \<Rightarrow> real \<Rightarrow> addr \<Rightarrow> addr \<Rightarrow> unit prog" where
  "weak_topics_body qlist threshold weak_topics response =
     py_bind (load_refs qlist) (\<lambda>qs.
     py_bind (next_gen (\<lambda>q. py_bind (getattr q attr_question_id) (\<lambda>qid.
                            py_bind (getattr response attr_question_id) (\<lambda>rid.
                            py_return (qid = rid)))) qs) (\<lambda>question.
       case question of
         None \<Rightarrow> py_return ()
       | Some q \<Rightarrow>
           py_bind (getattr q attr_mapped_topic) (\<lambda>mapped.
             case mapped of
               None \<Rightarrow> py_return ()
             | Some topic \<Rightarrow>
                 if topic = [] then py_return ()
                 else py_bind (h_get_score_percentage response q) (\<lambda>score_pct.
                        if score_pct < threshold then append_str weak_topics topic
                        else py_return ()))))"

definition h_get_weak_topics :: "addr \<Rightarrow> addr \<Rightarrow> real \<Rightarrow> addr prog" where
  "h_get_weak_topics self qlist threshold =
     py_bind (alloc (OStrs [])) (\<lambda>weak_topics.
     py_bind (getattr self attr_responses) (\<lambda>rl.
     py_bind (load_refs rl) (\<lambda>rs.
     py_bind (for_each (weak_topics_body qlist threshold weak_topics) rs) (\<lambda>u.
     list_of_set weak_topics))))"

definition h_add_question :: "addr \<Rightarrow> addr \<Rightarrow> unit prog" where
  "h_add_question self question =
     py_bind (getattr self attr_questions) (\<lambda>ql. append_ref ql question)"

definition h_add_student :: "addr \<Rightarrow> addr \<Rightarrow> unit prog" where
  "h_add_student self student =
     py_bind (getattr self attr_students) (\<lambda>sl. append_ref sl student)"

definition h_get_question_by_id :: "addr \<Rightarrow> int \<Rightarrow> addr option prog" where
  "h_get_question_by_id self qid =
     py_bind (getattr self attr_questions) (\<lambda>ql.
     py_bind (load_refs ql) (\<lambda>qs.
     next_gen (\<lambda>q. py_bind (getattr q attr_question_id) (\<lambda>i. py_return (i = qid))) qs))"

definition h_get_student_by_id :: "addr \<Rightarrow> string \<Rightarrow> addr option prog" where
  "h_get_student_by_id self sid =
     py_bind (getattr self attr_students) (\<lambda>sl.
     py_bind (load_refs sl) (\<lambda>ss.
     next_gen (\<lambda>s. py_bind (getattr s attr_student_id) (\<lambda>i. py_return (i = sid))) ss))"

definition percentage_of :: "addr \<Rightarrow> addr \<Rightarrow> real prog" where
  "percentage_of self s =
     py_bind (getattr self attr_questions) (\<lambda>ql. h_get_percentage s ql)"

definition h_get_class_average :: "addr \<Rightarrow> real prog" where
  "h_get_class_average self =
     py_bind (getattr self attr_students) (\<lambda>sl.
     py_bind (load_refs sl) (\<lambda>ss.
       if ss = [] then py_return 0
       else
         py_bind (getattr self attr_students) (\<lambda>sl1.
         py_bind (load_refs sl1) (\<lambda>ss1.
         py_bind (sum_gen (percentage_of self) ss1 0) (\<lambda>total_percentage.
         py_bind (getattr self attr_students) (\<lambda>sl2.
         py_bind (load_refs sl2) (\<lambda>ss2.
         truediv total_percentage (real (length ss2)))))))))"

definition h_get_students_by_section :: "addr \<Rightarrow> string \<Rightarrow> addr prog" where
  "h_get_students_by_section self sec =
     py_bind (getattr self attr_students) (\<lambda>sl.
     py_bind (load_refs sl) (\<lambda>ss.
     comp_refs (\<lambda>s. py_bind (getattr s attr_section) (\<lambda>x. py_return (x = sec))) ss))"

definition h_get_section_average :: "addr \<Rightarrow> string \<Rightarrow> real prog" where
  "h_get_section_average self sec =
     py_bind (h_get_students_by_section self sec) (\<lambda>section_students.
     py_bind (load_refs section_students) (\<lambda>ss.
       if ss = [] then py_return 0
       else
         py_bind (load_refs section_students) (\<lambda>ss1.
         py_bind (sum_gen (percentage_of self) ss1 0) (\<lambda>total_percentage.
         py_bind (load_refs section_students) (\<lambda>ss2.
         truediv total_percentage (real (length ss2)))))))"

definition h_get_all_sections :: "addr \<Rightarrow> addr prog" where
  "h_get_all_sections self =
     py_bind (getattr self attr_students) (\<lambda>sl.
     py_bind (load_refs sl) (\<lambda>ss.
     py_bind (comp_strs (\<lambda>s. getattr s attr_section) ss) (\<lambda>l.
     list_of_set l)))"

definition h_contains_keyword :: "addr \<Rightarrow> string \<Rightarrow> bool prog" where
  "h_contains_keyword self keyword =
     (let keyword_lower = py_lower keyword in
      py_bind (getattr self attr_name) (\<lambda>nm.
        if py_in keyword_lower (py_lower nm) then py_return True
        else py_bind (getattr self attr_description) (\<lambda>d.
          if (case d of None \<Rightarrow> False | Some d' \<Rightarrow> d' \<noteq> [] \<and> py_in keyword_lower (py_lower d'))
          then py_return True
          else py_bind (getattr self attr_subtopics) (\<lambda>sl.
               py_bind (load_strs sl) (\<lambda>subs.
               py_return (py_any (\<lambda>sub. py_in keyword_lower (py_lower sub)) subs))))))"

definition h_add_topic :: "addr \<Rightarrow> addr \<Rightarrow> unit prog" where
  "h_add_topic self t =
     py_bind (getattr self attr_topics) (\<lambda>tpl. append_ref tpl t)"

definition h_get_topic_by_name :: "addr \<Rightarrow> string \<Rightarrow> addr option prog" where
  "h_get_topic_by_name self n =
     py_bind (getattr self attr_topics) (\<lambda>tpl.
     py_bind (load_refs tpl) (\<lambda>ts.
     next_gen (\<lambda>t. py_bind (getattr t attr_name) (\<lambda>nm. py_return (py_lower nm = py_lower n))) ts))"

definition h_search_topics :: "addr \<Rightarrow> string \<Rightarrow> addr prog" where
  "h_search_topics self keyword =
     py_bind (getattr self attr_topics) (\<lambda>tpl.
     py_bind (load_refs tpl) (\<lambda>ts.
     comp_refs (\<lambda>t. h_contains_keyword t keyword) ts))"

definition h_get_all_topic_names :: "addr \<Rightarrow> addr prog" where
  "h_get_all_topic_names self =
     py_bind (getattr self attr_topics) (\<lambda>tpl.
     py_bind (load_refs tpl) (\<lambda>ts.
     comp_strs (\<lambda>t. getattr t attr_name) ts))"

subsection \<open>Reading the store back\<close>

text \<open>
  The record that an object of the store stands for, when the object and the lists it
  refers to are there and of the right class. These functions are used to state what a call
  leaves in the store and what it returns; the methods themselves do not use them.
\<close>

definition lookup :: "heap \<Rightarrow> addr \<Rightarrow> obj option" where
  "lookup h a = (if a < length h then Some (h ! a) else None)"

definition abs_strs :: "heap \<Rightarrow> addr \<Rightarrow> string list option" where
  "abs_strs h a = (case lookup h a of Some (OStrs xs) \<Rightarrow> Some xs | _ \<Rightarrow> None)"

definition abs_refs :: "(heap \<Rightarrow> addr \<Rightarrow> 'a option) \<Rightarrow> heap \<Rightarrow> addr \<Rightarrow> 'a list option" where
  "abs_refs f h a = (case lookup h a of Some (ORefs xs) \<Rightarrow> those (map (f h) xs) | _ \<Rightarrow> None)"

definition abs_question :: "heap \<Rightarrow> addr \<Rightarrow> question option" where
  "abs_question h a =
     (case lookup h a of
        Some (OQuestion qid txt ans pts tp sec) \<Rightarrow>
          map_option (\<lambda>ss. \<lparr>question_id = qid, question_text = txt, correct_answer = ans,
                            points = pts, mapped_topic = tp, secondary_topics = ss\<rparr>)
            (abs_strs h sec)
      | _ \<Rightarrow> None)"

definition abs_response :: "heap \<Rightarrow> addr \<Rightarrow> student_response option" where
  "abs_response h a =
     (case lookup h a of
        Some (OResponse qid txt earned ok) \<Rightarrow>
          Some \<lparr>r_question_id = qid, response_text = txt, points_earned = earned,
                is_correct = ok\<rparr>
      | _ \<Rightarrow> None)"

definition abs_student :: "heap \<Rightarrow> addr \<Rightarrow> student option" where
  "abs_student h a =
     (case lookup h a of
        Some (OStudent sid nm sec rl) \<Rightarrow>
          map_option (\<lambda>rs. \<lparr>student_id = sid, name = nm, section_of = sec, responses = rs\<rparr>)
            (abs_refs abs_response h rl)
      | _ \<Rightarrow> None)"

definition abs_quiz :: "heap \<Rightarrow> addr \<Rightarrow> quiz option" where
  "abs_quiz h a =
     (case lookup h a of
        Some (OQuiz nm cn d ql sl) \<Rightarrow>
          (case (abs_refs abs_question h ql, abs_refs abs_student h sl) of
             (Some qs, Some ss) \<Rightarrow>
               Some \<lparr>quiz_name = nm, course_name = cn, quiz_date = d, questions = qs,
                     students = ss\<rparr>
           | _ \<Rightarrow> None)
      | _ \<Rightarrow> None)"

definition abs_topic :: "heap \<Rightarrow> addr \<Rightarrow> topic option" where
  "abs_topic h a =
     (case lookup h a of
        Some (OTopic nm d w sl) \<Rightarrow>
          map_option (\<lambda>ss. \<lparr>topic_name = nm, description = d, week = w, subtopics = ss\<rparr>)
            (abs_strs h sl)
      | _ \<Rightarrow> None)"

definition abs_syllabus :: "heap \<Rightarrow> addr \<Rightarrow> syllabus option" where
  "abs_syllabus h a =
     (case lookup h a of
        Some (OSyllabus cn cc tpl raw) \<Rightarrow>
          map_option (\<lambda>ts. \<lparr>syllabus_course_name = cn, course_code = cc, topics = ts,
                            raw_text = raw\<rparr>)
            (abs_refs abs_topic h tpl)
      | _ \<Rightarrow> None)"

subsection \<open>Calls and what the caller sees\<close>

text \<open>
  A method call returns \<^verbatim>\<open>None\<close>, a truth value, a number, or a reference to an object
  or to a list. The calls of each class are collected in a datatype; the two \<^verbatim>\<open>add_\<close>
  methods of \<^verbatim>\<open>Quiz\<close> and \<^verbatim>\<open>add_topic\<close> of \<^verbatim>\<open>Syllabus\<close> are there as well, and are the ones
  that are not read operations.
\<close>

datatype val = VNone | VBool bool | VFloat real | VRef addr

definition ret_float :: "real prog \<Rightarrow> val prog" where
  "ret_float m = py_bind m (\<lambda>x. py_return (VFloat x))"

definition ret_bool :: "bool prog \<Rightarrow> val prog" where
  "ret_bool m = py_bind m (\<lambda>x. py_return (VBool x))"

definition ret_ref :: "addr prog \<Rightarrow> val prog" where
  "ret_ref m = py_bind m (\<lambda>x. py_return (VRef x))"

definition ret_opt :: "addr option prog \<Rightarrow> val prog" where
  "ret_opt m = py_bind m (\<lambda>x. py_return (case x of None \<Rightarrow> VNone | Some a \<Rightarrow> VRef a))"

definition ret_none :: "unit prog \<Rightarrow> val prog" where
  "ret_none m = py_bind m (\<lambda>x. py_return VNone)"

datatype response_call = Get_score_percentage addr

fun call_response :: "response_call \<Rightarrow> addr \<Rightarrow> val prog" where
  "call_response (Get_score_percentage q) self = ret_float (h_get_score_percentage self q)"

datatype student_call =
  Get_total_score addr
| Get_total_possible addr
| Get_percentage addr
| Get_weak_topics addr real

fun call_student :: "student_call \<Rightarrow> addr \<Rightarrow> val prog" where
  "call_student (Get_total_score ql) self = ret_float (h_get_total_score self ql)"
| "call_student (Get_total_possible ql) self = ret_float (h_get_total_possible self ql)"
| "call_student (Get_percentage ql) self = ret_float (h_get_percentage self ql)"
| "call_student (Get_weak_topics ql th) self = ret_ref (h_get_weak_topics self ql th)"

fun questions_arg :: "student_call \<Rightarrow> addr" where
  "questions_arg (Get_total_score ql) = ql"
| "questions_arg (Get_total_possible ql) = ql"
| "questions_arg (Get_percentage ql) = ql"
| "questions_arg (Get_weak_topics ql th) = ql"

datatype quiz_call =
  Add_question addr
| Add_student addr
| Get_question_by_id int
| Get_student_by_id string
| Get_class_average
| Get_students_by_section string
| Get_section_average string
| Get_all_sections

fun call_quiz :: "quiz_call \<Rightarrow> addr \<Rightarrow> val prog" where
  "call_quiz (Add_question q) self = ret_none (h_add_question self q)"
| "call_quiz (Add_student s) self = ret_none (h_add_student self s)"
| "call_quiz (Get_question_by_id qid) self = ret_opt (h_get_question_by_id self qid)"
| "call_quiz (Get_student_by_id sid) self = ret_opt (h_get_student_by_id self sid)"
| "call_quiz Get_class_average self = ret_float (h_get_class_average self)"
| "call_quiz (Get_students_by_section sec) self = ret_ref (h_get_students_by_section self sec)"
| "call_quiz (Get_section_average sec) self = ret_float (h_get_section_average self sec)"
| "call_quiz Get_all_sections self = ret_ref (h_get_all_sections self)"

fun quiz_read :: "quiz_call \<Rightarrow> bool" where
  "quiz_read (Add_question q) = False"
| "quiz_read (Add_student s) = False"
| "quiz_read c = True"

datatype topic_call = Contains_keyword string

fun call_topic :: "topic_call \<Rightarrow> addr \<Rightarrow> val prog" where
  "call_topic (Contains_keyword k) self = ret_bool (h_contains_keyword self k)"

datatype syllabus_call =
  Add_topic addr
| Get_topic_by_name string
| Search_topics string
| Get_all_topic_names

fun call_syllabus :: "syllabus_call \<Rightarrow> addr \<Rightarrow> val prog" where
  "call_syllabus (Add_topic t) self = ret_none (h_add_topic self t)"
| "call_syllabus (Get_topic_by_name n) self = ret_opt (h_get_topic_by_name self n)"
| "call_syllabus (Search_topics k) self = ret_ref (h_search_topics self k)"
| "call_syllabus Get_all_topic_names self = ret_ref (h_get_all_topic_names self)"

fun syllabus_read :: "syllabus_call \<Rightarrow> bool" where
  "syllabus_read (Add_topic t) = False"
| "syllabus_read c = True"

text \<open>
  What a returned value is for the caller: a scalar is itself, a reference to a question, a
  student or a topic is that object with its fields, a reference to a list is the list of
  its items.
\<close>

datatype seen =
  SNone
| SBool bool
| SFloat real
| SStrs "string list"
| SQuestion question
| SStudent student
| STopic topic
| SList "seen list"
| SOther

definition see_object :: "heap \<Rightarrow> addr \<Rightarrow> seen" where
  "see_object h a =
     (case abs_question h a of
        Some q \<Rightarrow> SQuestion q
      | None \<Rightarrow>
          (case abs_student h a of
             Some s \<Rightarrow> SStudent s
           | None \<Rightarrow> (case abs_topic h a of Some t \<Rightarrow> STopic t | None \<Rightarrow> SOther)))"

definition see :: "heap \<Rightarrow> val \<Rightarrow> seen" where
  "see h v =
     (case v of
        VNone \<Rightarrow> SNone
      | VBool b \<Rightarrow> SBool b
      | VFloat x \<Rightarrow> SFloat x
      | VRef a \<Rightarrow>
          (case lookup h a of
             Some (OStrs xs) \<Rightarrow> SStrs xs
           | Some (ORefs xs) \<Rightarrow> SList (map (see_object h) xs)
           | _ \<Rightarrow> see_object h a))"

definition see_outcome :: "heap \<Rightarrow> py_exception + val \<Rightarrow> py_exception + seen" where
  "see_outcome h r = (case r of Inl e \<Rightarrow> Inl e | Inr v \<Rightarrow> Inr (see h v))"

text \<open>
  The value of each read call in terms of the functions on records of the first part: what
  the call on the store is compared with.
\<close>

definition float_answer :: "py_error + real \<Rightarrow> py_exception + seen" where
  "float_answer x = (case x of Inl e \<Rightarrow> Inl (Raised e) | Inr v \<Rightarrow> Inr (SFloat v))"

definition opt_answer :: "('a \<Rightarrow> seen) \<Rightarrow> 'a option \<Rightarrow> py_exception + seen" where
  "opt_answer f x = (case x of None \<Rightarrow> Inr SNone | Some v \<Rightarrow> Inr (f v))"

fun question_arg :: "response_call \<Rightarrow> addr" where
  "question_arg (Get_score_percentage q) = q"

fun response_answer :: "response_call \<Rightarrow> student_response \<Rightarrow> question \<Rightarrow> py_exception + seen" where
  "response_answer (Get_score_percentage q) r qq = float_answer (get_score_percentage r qq)"

fun student_answer :: "student_call \<Rightarrow> student \<Rightarrow> question list \<Rightarrow> py_exception + seen" where
  "student_answer (Get_total_score ql) s qs = Inr (SFloat (get_total_score s qs))"
| "student_answer (Get_total_possible ql) s qs = Inr (SFloat (get_total_possible s qs))"
| "student_answer (Get_percentage ql) s qs = float_answer (get_percentage s qs)"
| "student_answer (Get_weak_topics ql th) s qs =
     (case get_weak_topics s qs th of Inl e \<Rightarrow> Inl (Raised e) | Inr ws \<Rightarrow> Inr (SStrs ws))"

fun quiz_answer :: "quiz_call \<Rightarrow> quiz \<Rightarrow> py_exception + seen" where
  "quiz_answer (Add_question q) qz = Inr SNone"
| "quiz_answer (Add_student s) qz = Inr SNone"
| "quiz_answer (Get_question_by_id qid) qz = opt_answer SQuestion (get_question_by_id qz qid)"
| "quiz_answer (Get_student_by_id sid) qz = opt_answer SStudent (get_student_by_id qz sid)"
| "quiz_answer Get_class_average qz = float_answer (get_class_average qz)"
| "quiz_answer (Get_students_by_section sec) qz =
     Inr (SList (map SStudent (get_students_by_section qz sec)))"
| "quiz_answer (Get_section_average sec) qz = float_answer (get_section_average qz sec)"
| "quiz_answer Get_all_sections qz = Inr (SStrs (get_all_sections qz))"

fun topic_answer :: "topic_call \<Rightarrow> topic \<Rightarrow> py_exception + seen" where
  "topic_answer (Contains_keyword k) t = Inr (SBool (contains_keyword t k))"

fun syllabus_answer :: "syllabus_call \<Rightarrow> syllabus \<Rightarrow> py_exception + seen" where
  "syllabus_answer (Add_topic t) syl = Inr SNone"
| "syllabus_answer (Get_topic_by_name n) syl = opt_answer STopic (get_topic_by_name syl n)"
| "syllabus_answer (Search_topics k) syl = Inr (SList (map STopic (search_topics syl k)))"
| "syllabus_answer Get_all_topic_names syl = Inr (SStrs (get_all_topic_names syl))"

text \<open>
  A store with one quiz (one question, one student with one response) at address 7 and one
  syllabus (one topic) at address 11.
\<close>

definition ex_store :: heap where
  "ex_store =
     [OStrs [],
      OQuestion 1 [] [] 10 (Some ''Recursion'') 0,
      ORefs [1],
      OResponse 1 [] 4 False,
      ORefs [3],
      OStudent ''S1'' ''S1'' ''A'' 4,
      ORefs [5],
      OQuiz ''Quiz 1'' ''CS101'' 0 2 6,
      OStrs [''For Loops''],
      OTopic ''Control Flow'' None None 8,
      ORefs [9],
      OSyllabus ''CS101'' [] 10 []]"

definition ex_store_student :: student where
  "ex_store_student = mk_student ''S1'' ''A'' [mk_response 1 4]"

definition ex_store_quiz :: quiz where
  "ex_store_quiz =
     \<lparr>quiz_name = ''Quiz 1'', course_name = ''CS101'', quiz_date = 0,
      questions = [mk_question 1 10 (Some ''Recursion'')], students = [ex_store_student]\<rparr>"

definition ex_store_topic :: topic where
  "ex_store_topic =
     \<lparr>topic_name = ''Control Flow'', description = None, week = None,
      subtopics = [''For Loops'']\<rparr>"

definition ex_store_syllabus :: syllabus where
  "ex_store_syllabus =
     \<lparr>syllabus_course_name = ''CS101'', course_code = [], topics = [ex_store_topic],
      raw_text = []\<rparr>"

section \<open>Properties of the response score\<close>

lemma py_truediv_nonzero: "b \<noteq> 0 \<Longrightarrow> py_truediv a b = Inr (a / b)"
  by (simp add: py_truediv_def)

text \<open>
  C3. The score percentage of a response is 0 when the question is worth 0 points, whatever
  was earned, and otherwise the points earned divided by the question's points, times 100;
  the call always returns, and the value is not clamped: a response that earned more than
  the (positive) points of its question scores above 100.
\<close>

theorem get_score_percentage_value:
  "get_score_percentage r q =
     Inr (if points q = 0 then 0 else points_earned r / points q * 100)
   \<and> (0 < points q \<and> points q < points_earned r \<longrightarrow>
        (\<exists>v. get_score_percentage r q = Inr v \<and> 100 < v))"
proof -
  have val: "get_score_percentage r q =
      Inr (if points q = 0 then 0 else points_earned r / points q * 100)"
    by (simp add: get_score_percentage_def py_truediv_nonzero)
  have "100 < points_earned r / points q * 100"
    if "0 < points q" "points q < points_earned r"
  proof -
    from that have "1 < points_earned r / points q" by simp
    then have "1 * 100 < points_earned r / points q * 100"
      by (intro mult_strict_right_mono) simp_all
    then show ?thesis by simp
  qed
  with val show ?thesis by auto
qed

theorem get_score_percentage_value_witness:
  "(0::real) < 10 \<and> (10::real) < 15
   \<and> get_score_percentage
        \<lparr>r_question_id = 1, response_text = ''x'', points_earned = 15, is_correct = True\<rparr>
        \<lparr>question_id = 1, question_text = ''t'', correct_answer = ''x'', points = 10,
         mapped_topic = None, secondary_topics = []\<rparr> = Inr 150
   \<and> (\<exists>v. get_score_percentage
        \<lparr>r_question_id = 1, response_text = ''x'', points_earned = 15, is_correct = True\<rparr>
        \<lparr>question_id = 1, question_text = ''t'', correct_answer = ''x'', points = 10,
         mapped_topic = None, secondary_topics = []\<rparr> = Inr v \<and> 100 < v)"
  using get_score_percentage_value
    [of "\<lparr>r_question_id = 1, response_text = ''x'', points_earned = 15, is_correct = True\<rparr>"
        "\<lparr>question_id = 1, question_text = ''t'', correct_answer = ''x'', points = 10,
          mapped_topic = None, secondary_topics = []\<rparr>"]
  by simp

section \<open>Totals and percentage of a student\<close>

lemma py_sum_from_eq: "py_sum_from acc xs = acc + sum_list xs"
  by (induction xs arbitrary: acc) simp_all

lemma py_sum_eq: "py_sum xs = sum_list xs"
  by (simp add: py_sum_def py_sum_from_eq)

lemma py_sum_gen_from_total:
  "py_sum_gen_from acc (\<lambda>x. Inr (g x)) xs = Inr (acc + sum_list (map g xs))"
  by (induction xs arbitrary: acc) simp_all

lemma py_sum_gen_total: "py_sum_gen (\<lambda>x. Inr (g x)) xs = Inr (sum_list (map g xs))"
  by (simp add: py_sum_gen_def py_sum_gen_from_total)

lemma get_percentage_Inr: "get_percentage s qs = Inr (percentage_value s qs)"
  by (simp add: get_percentage_def get_total_possible_def get_total_score_def py_sum_eq
      py_truediv_nonzero percentage_value_def Let_def)

lemmas sample_defs =
  ex_s1_def ex_full_def ex_half_def ex_questions_def mk_student_def mk_response_def
  mk_question_def

lemma ex_percentages:
  "get_percentage ex_s1 ex_questions = Inr 65"
  "get_percentage ex_full ex_questions = Inr 100"
  "get_percentage ex_half ex_questions = Inr 50"
  by (simp_all add: get_percentage_Inr percentage_value_def sample_defs)

text \<open>
  C2. The total score of a student is the sum of the points earned over all the responses,
  whatever the question list is; the total possible is the sum of the points of the question
  list; the percentage is total score / total possible * 100 when the total possible is not
  zero, and 0 when it is.
\<close>

theorem student_totals_and_percentage:
  "get_total_score s qs = sum_list (map points_earned (responses s))
   \<and> get_total_score s qs = get_total_score s qs'
   \<and> get_total_possible s qs = sum_list (map points qs)
   \<and> get_percentage s qs =
       Inr (if get_total_possible s qs = 0 then 0
            else get_total_score s qs / get_total_possible s qs * 100)"
  by (simp add: get_percentage_def get_total_possible_def get_total_score_def py_sum_eq
      py_truediv_nonzero Let_def)

theorem student_totals_and_percentage_witness:
  "get_total_score ex_s1 ex_questions = 13
   \<and> get_total_score ex_s1 [] = 13
   \<and> get_total_possible ex_s1 ex_questions = 20
   \<and> get_percentage ex_s1 ex_questions = Inr 65
   \<and> get_percentage ex_s1 [] = Inr 0"
  using student_totals_and_percentage [of ex_s1 ex_questions "[]"]
    student_totals_and_percentage [of ex_s1 "[]" "[]"]
  by (simp add: sample_defs)

section \<open>Class and section averages\<close>

lemma class_average_closed:
  "get_class_average qz =
     Inr (if students qz = [] then 0
          else sum_list (map (\<lambda>s. percentage_value s (questions qz)) (students qz))
               / real (length (students qz)))"
  by (simp add: get_class_average_def get_percentage_Inr py_sum_gen_total py_truediv_nonzero)

lemma section_as_class:
  "get_section_average qz sec
     = get_class_average (qz\<lparr>students := get_students_by_section qz sec\<rparr>)"
  by (simp add: get_section_average_def get_class_average_def Let_def cong: sum.case_cong)

text \<open>
  C4. Every student's percentage is computed, and the class average is the arithmetic mean of
  these percentages; it is 0 for a quiz without students, and 75 for two students who score
  100 and 50.
\<close>

theorem class_average_is_mean:
  "(\<exists>ps. map (\<lambda>s. get_percentage s (questions qz)) (students qz) = map Inr ps
         \<and> get_class_average qz = Inr (if ps = [] then 0 else sum_list ps / real (length ps)))
   \<and> (students qz = [] \<longrightarrow> get_class_average qz = Inr 0)
   \<and> (students qz = [a, b] \<and> get_percentage a (questions qz) = Inr 100
        \<and> get_percentage b (questions qz) = Inr 50 \<longrightarrow> get_class_average qz = Inr 75)"
proof (intro conjI impI)
  let ?ps = "map (\<lambda>s. percentage_value s (questions qz)) (students qz)"
  have "map (\<lambda>s. get_percentage s (questions qz)) (students qz) = map Inr ?ps"
    by (simp add: get_percentage_Inr)
  moreover have "get_class_average qz = Inr (if ?ps = [] then 0 else sum_list ?ps / real (length ?ps))"
    by (simp add: class_average_closed)
  ultimately show "\<exists>ps. map (\<lambda>s. get_percentage s (questions qz)) (students qz) = map Inr ps
         \<and> get_class_average qz = Inr (if ps = [] then 0 else sum_list ps / real (length ps))"
    by blast
next
  assume "students qz = []"
  then show "get_class_average qz = Inr 0" by (simp add: class_average_closed)
next
  assume h: "students qz = [a, b] \<and> get_percentage a (questions qz) = Inr 100
        \<and> get_percentage b (questions qz) = Inr 50"
  then have "percentage_value a (questions qz) = 100" "percentage_value b (questions qz) = 50"
    by (simp_all add: get_percentage_Inr)
  with h show "get_class_average qz = Inr 75" by (simp add: class_average_closed)
qed

theorem class_average_is_mean_witness:
  "students ex_quiz = [ex_full, ex_half]
   \<and> get_percentage ex_full (questions ex_quiz) = Inr 100
   \<and> get_percentage ex_half (questions ex_quiz) = Inr 50
   \<and> get_class_average ex_quiz = Inr 75
   \<and> students (ex_quiz\<lparr>students := []\<rparr>) = []
   \<and> get_class_average (ex_quiz\<lparr>students := []\<rparr>) = Inr 0"
  using class_average_is_mean [of ex_quiz ex_full ex_half]
    class_average_is_mean [of "ex_quiz\<lparr>students := []\<rparr>" ex_full ex_half]
  by (simp add: ex_quiz_def ex_percentages)

text \<open>
  C5. The students of a section are those whose section is equal to the label, as strings;
  the section average is the class average of the quiz restricted to them, that is the mean
  of their percentages, and it is 0 when no student has that section.
\<close>

theorem section_average_is_restricted_mean:
  "get_students_by_section qz sec = filter (\<lambda>s. section_of s = sec) (students qz)
   \<and> get_section_average qz sec
       = get_class_average (qz\<lparr>students := get_students_by_section qz sec\<rparr>)
   \<and> (\<exists>ps. map (\<lambda>s. get_percentage s (questions qz)) (get_students_by_section qz sec)
           = map Inr ps
         \<and> get_section_average qz sec = Inr (if ps = [] then 0 else sum_list ps / real (length ps)))
   \<and> ((\<forall>s \<in> set (students qz). section_of s \<noteq> sec) \<longrightarrow> get_section_average qz sec = Inr 0)"
proof (intro conjI impI)
  show "get_students_by_section qz sec = filter (\<lambda>s. section_of s = sec) (students qz)"
    by (simp add: get_students_by_section_def)
  show "get_section_average qz sec
       = get_class_average (qz\<lparr>students := get_students_by_section qz sec\<rparr>)"
    by (rule section_as_class)
  let ?ss = "get_students_by_section qz sec"
  let ?ps = "map (\<lambda>s. percentage_value s (questions qz)) ?ss"
  have "map (\<lambda>s. get_percentage s (questions qz)) ?ss = map Inr ?ps"
    by (simp add: get_percentage_Inr)
  moreover have "get_section_average qz sec
      = Inr (if ?ps = [] then 0 else sum_list ?ps / real (length ?ps))"
    by (simp add: section_as_class class_average_closed)
  ultimately show "\<exists>ps. map (\<lambda>s. get_percentage s (questions qz)) ?ss = map Inr ps
         \<and> get_section_average qz sec = Inr (if ps = [] then 0 else sum_list ps / real (length ps))"
    by blast
next
  assume "\<forall>s \<in> set (students qz). section_of s \<noteq> sec"
  then have "get_students_by_section qz sec = []"
    by (simp add: get_students_by_section_def filter_empty_conv)
  then show "get_section_average qz sec = Inr 0"
    by (simp add: get_section_average_def)
qed

theorem section_average_is_restricted_mean_witness:
  "get_students_by_section ex_quiz ''A'' = [ex_full]
   \<and> get_section_average ex_quiz ''A'' = Inr 100
   \<and> get_students_by_section ex_quiz ''B'' = [ex_half]
   \<and> get_section_average ex_quiz ''B'' = Inr 50
   \<and> ''a'' \<notin> set (map section_of (students ex_quiz))
   \<and> get_section_average ex_quiz ''a'' = Inr 0"
proof -
  have secs: "section_of ex_full = ''A''" "section_of ex_half = ''B''"
    by (simp_all add: sample_defs)
  have sts: "students ex_quiz = [ex_full, ex_half]" and qs: "questions ex_quiz = ex_questions"
    by (simp_all add: ex_quiz_def)
  note a = section_average_is_restricted_mean [of ex_quiz "''A''"]
  note b = section_average_is_restricted_mean [of ex_quiz "''B''"]
  note c = section_average_is_restricted_mean [of ex_quiz "''a''"]
  have sa: "get_students_by_section ex_quiz ''A'' = [ex_full]"
    using a by (simp add: sts secs)
  have sb: "get_students_by_section ex_quiz ''B'' = [ex_half]"
    using b by (simp add: sts secs)
  have pv: "percentage_value ex_full ex_questions = 100" "percentage_value ex_half ex_questions = 50"
    using ex_percentages by (simp_all add: get_percentage_Inr)
  have "get_section_average ex_quiz ''A'' = get_class_average (ex_quiz\<lparr>students := [ex_full]\<rparr>)"
    using a sa by simp
  then have va: "get_section_average ex_quiz ''A'' = Inr 100"
    by (simp add: class_average_closed qs pv)
  have "get_section_average ex_quiz ''B'' = get_class_average (ex_quiz\<lparr>students := [ex_half]\<rparr>)"
    using b sb by simp
  then have vb: "get_section_average ex_quiz ''B'' = Inr 50"
    by (simp add: class_average_closed qs pv)
  have none: "\<forall>s \<in> set (students ex_quiz). section_of s \<noteq> ''a''"
    by (simp add: sts secs)
  with c have vc: "get_section_average ex_quiz ''a'' = Inr 0"
    by blast
  have "''a'' \<notin> set (map section_of (students ex_quiz))"
    by (simp add: sts secs)
  with sa va sb vb vc show ?thesis by blast
qed

section \<open>Weak topics of a student\<close>

lemma get_score_percentage_Inr:
  "get_score_percentage r q = Inr (if points q = 0 then 0 else points_earned r / points q * 100)"
  by (simp add: get_score_percentage_def py_truediv_nonzero)

lemma weak_topics_loop_closed:
  "weak_topics_loop rs qs th acc = Inr (acc @ concat (map (response_topics qs th) rs))"
proof (induction rs arbitrary: acc)
  case Nil
  then show ?case by simp
next
  case (Cons r rs)
  show ?case
    by (simp add: Cons.IH response_topics_def get_score_percentage_Inr split: option.splits)
qed

lemma score_below_iff:
  "(\<exists>p. get_score_percentage r q = Inr p \<and> p < th) \<longleftrightarrow>
     (if points q = 0 then 0 else points_earned r / points q * 100) < th"
  by (simp only: get_score_percentage_Inr sum.inject ex_simps simp_thms)

lemma response_topics_iff:
  "t \<in> set (response_topics qs th r) \<longleftrightarrow>
     t \<noteq> [] \<and> (\<exists>q. py_next (\<lambda>q. question_id q = r_question_id r) qs = Some q
                  \<and> mapped_topic q = Some t
                  \<and> (\<exists>p. get_score_percentage r q = Inr p \<and> p < th))"
proof (cases "py_next (\<lambda>q. question_id q = r_question_id r) qs")
  case None
  then show ?thesis by (simp add: response_topics_def)
next
  case (Some q0)
  show ?thesis
  proof (cases "mapped_topic q0")
    case None
    with Some show ?thesis by (simp add: response_topics_def)
  next
    case (Some t0)
    with \<open>py_next (\<lambda>q. question_id q = r_question_id r) qs = Some q0\<close> show ?thesis
      unfolding score_below_iff by (auto simp: response_topics_def)
  qed
qed

lemma ex_weak_run: "get_weak_topics ex_s1 ex_questions 70 = Inr [''Recursion'']"
  by (simp add: get_weak_topics_def sample_defs py_list_set_def get_score_percentage_Inr)

lemma cx_weak_run: "get_weak_topics cx_student cx_questions 70 = Inr []"
  by (simp add: get_weak_topics_def cx_student_def cx_questions_def sample_defs py_list_set_def)

text \<open>
  A question whose topic is the empty string has a topic that is not absent, and its response
  below scores 0, under the threshold 70; the loop drops it all the same, so the result is
  not the set of the topics of all such questions.
\<close>

theorem get_weak_topics_empty_topic_counterexample:
  "\<not> (\<exists>ws. get_weak_topics cx_student cx_questions 70 = Inr ws
         \<and> set ws = {t. \<exists>r \<in> set (responses cx_student). \<exists>q.
               py_next (\<lambda>q. question_id q = r_question_id r) cx_questions = Some q
               \<and> mapped_topic q = Some t
               \<and> (\<exists>p. get_score_percentage r q = Inr p \<and> p < 70)})"
proof
  assume "\<exists>ws. get_weak_topics cx_student cx_questions 70 = Inr ws
         \<and> set ws = {t. \<exists>r \<in> set (responses cx_student). \<exists>q.
               py_next (\<lambda>q. question_id q = r_question_id r) cx_questions = Some q
               \<and> mapped_topic q = Some t
               \<and> (\<exists>p. get_score_percentage r q = Inr p \<and> p < 70)}"
  then have empty: "{t. \<exists>r \<in> set (responses cx_student). \<exists>q.
               py_next (\<lambda>q. question_id q = r_question_id r) cx_questions = Some q
               \<and> mapped_topic q = Some t
               \<and> (\<exists>p. get_score_percentage r q = Inr p \<and> p < 70)} = {}"
    by (auto simp: cx_weak_run)
  have "mk_response 1 0 \<in> set (responses cx_student)"
    by (simp add: cx_student_def mk_student_def)
  moreover have "py_next (\<lambda>q. question_id q = r_question_id (mk_response 1 0)) cx_questions
      = Some (mk_question 1 10 (Some []))"
    by (simp add: cx_questions_def mk_question_def mk_response_def)
  moreover have "mapped_topic (mk_question 1 10 (Some [])) = Some []"
    by (simp add: mk_question_def)
  moreover have "get_score_percentage (mk_response 1 0) (mk_question 1 10 (Some [])) = Inr 0"
    by (simp add: get_score_percentage_Inr mk_question_def mk_response_def)
  ultimately have "[] \<in> {t. \<exists>r \<in> set (responses cx_student). \<exists>q.
               py_next (\<lambda>q. question_id q = r_question_id r) cx_questions = Some q
               \<and> mapped_topic q = Some t
               \<and> (\<exists>p. get_score_percentage r q = Inr p \<and> p < 70)}"
    by (intro CollectI bexI [of _ "mk_response 1 0"] exI [of _ "mk_question 1 10 (Some [])"]
        conjI exI [of _ 0]) simp_all
  with empty show False by blast
qed

text \<open>
  C1 (amended). The weak topics of a student are returned without repetition, and they are
  exactly the non-empty topic names \<open>t\<close> for which some response of the student refers, by
  its question id, to a question found in the list (the first with that id) whose topic is
  \<open>t\<close> and on which the response scores strictly below the threshold. Responses whose
  question id matches no question contribute nothing.
\<close>

theorem get_weak_topics_set:
  "\<exists>ws. get_weak_topics s qs th = Inr ws \<and> distinct ws
     \<and> set ws = {t. t \<noteq> [] \<and> (\<exists>r \<in> set (responses s). \<exists>q.
                   py_next (\<lambda>q. question_id q = r_question_id r) qs = Some q
                   \<and> mapped_topic q = Some t
                   \<and> (\<exists>p. get_score_percentage r q = Inr p \<and> p < th))}"
proof -
  let ?ws = "remdups (concat (map (response_topics qs th) (responses s)))"
  have run: "get_weak_topics s qs th = Inr ?ws"
    by (simp add: get_weak_topics_def weak_topics_loop_closed py_list_set_def)
  have "set ?ws = {t. \<exists>r \<in> set (responses s). t \<in> set (response_topics qs th r)}"
    by auto
  also have "\<dots> = {t. t \<noteq> [] \<and> (\<exists>r \<in> set (responses s). \<exists>q.
                   py_next (\<lambda>q. question_id q = r_question_id r) qs = Some q
                   \<and> mapped_topic q = Some t
                   \<and> (\<exists>p. get_score_percentage r q = Inr p \<and> p < th))}"
    by (simp only: response_topics_iff) blast
  finally show ?thesis using run by simp
qed

theorem get_weak_topics_set_witness:
  "get_weak_topics ex_s1 ex_questions 70 = Inr [''Recursion'']
   \<and> (\<exists>r \<in> set (responses ex_s1). \<exists>q.
         py_next (\<lambda>q. question_id q = r_question_id r) ex_questions = Some q
         \<and> mapped_topic q = Some ''Recursion''
         \<and> (\<exists>p. get_score_percentage r q = Inr p \<and> p < 70))"
proof -
  from get_weak_topics_set [of ex_s1 ex_questions 70]
  obtain ws where ws: "get_weak_topics ex_s1 ex_questions 70 = Inr ws"
    and eq: "set ws = {t. t \<noteq> [] \<and> (\<exists>r \<in> set (responses ex_s1). \<exists>q.
                   py_next (\<lambda>q. question_id q = r_question_id r) ex_questions = Some q
                   \<and> mapped_topic q = Some t
                   \<and> (\<exists>p. get_score_percentage r q = Inr p \<and> p < 70))}"
    by blast
  from ws have "ws = [''Recursion'']" by (simp add: ex_weak_run)
  then have "''Recursion'' \<in> set ws" by simp
  with eq have "\<exists>r \<in> set (responses ex_s1). \<exists>q.
         py_next (\<lambda>q. question_id q = r_question_id r) ex_questions = Some q
         \<and> mapped_topic q = Some ''Recursion''
         \<and> (\<exists>p. get_score_percentage r q = Inr p \<and> p < 70)"
    by blast
  with ex_weak_run show ?thesis by blast
qed

section \<open>Keyword search and lookup by name in a syllabus\<close>

lemma py_in_sublist: "py_in k s \<longleftrightarrow> sublist k s"
  by (induction s) (simp_all add: sublist_Cons_right)

lemma py_any_iff: "py_any p xs \<longleftrightarrow> (\<exists>x \<in> set xs. p x)"
  by (induction xs) simp_all

lemma py_next_find: "py_next p xs = List.find p xs"
  by (induction xs) simp_all

lemma py_lower_Nil: "py_lower [] = []"
  by (simp add: py_lower_def)

lemma contains_keyword_sublist:
  "contains_keyword t k \<longleftrightarrow>
     sublist (py_lower k) (py_lower (topic_name t))
     \<or> (\<exists>d. description t = Some d \<and> sublist (py_lower k) (py_lower d))
     \<or> (\<exists>sub \<in> set (subtopics t). sublist (py_lower k) (py_lower sub))"
proof (cases "description t")
  case None
  then show ?thesis
    by (simp add: contains_keyword_def Let_def py_in_sublist py_any_iff)
next
  case (Some d)
  show ?thesis
  proof (cases "d = []")
    case True
    have "sublist (py_lower k) [] \<Longrightarrow> sublist (py_lower k) (py_lower (topic_name t))"
      by simp
    with Some True show ?thesis
      by (auto simp: contains_keyword_def Let_def py_in_sublist py_any_iff py_lower_Nil)
  next
    case False
    with Some show ?thesis
      by (simp add: contains_keyword_def Let_def py_in_sublist py_any_iff)
  qed
qed

text \<open>
  C7. A topic contains a keyword exactly when the lowercased keyword is a contiguous substring
  of the lowercased name, or of the lowercased description when there is one, or of the
  lowercasing of some subtopic; \<^verbatim>\<open>search_topics\<close> keeps exactly the topics that contain the
  keyword, in the order of the syllabus and as often as they occur there. So a topic is
  found through a subtopic such as \<^verbatim>\<open>For Loops\<close> alone, for the keyword \<^verbatim>\<open>loop\<close>, when
  neither its name nor its description mentions it.
\<close>

theorem contains_keyword_and_search:
  "(contains_keyword t k \<longleftrightarrow>
      sublist (py_lower k) (py_lower (topic_name t))
      \<or> (\<exists>d. description t = Some d \<and> sublist (py_lower k) (py_lower d))
      \<or> (\<exists>sub \<in> set (subtopics t). sublist (py_lower k) (py_lower sub)))
   \<and> search_topics syl k = filter (\<lambda>t. contains_keyword t k) (topics syl)
   \<and> search_topics syl k =
       filter (\<lambda>t. sublist (py_lower k) (py_lower (topic_name t))
                 \<or> (\<exists>d. description t = Some d \<and> sublist (py_lower k) (py_lower d))
                 \<or> (\<exists>sub \<in> set (subtopics t). sublist (py_lower k) (py_lower sub)))
         (topics syl)"
proof (intro conjI)
  show "contains_keyword t k \<longleftrightarrow>
      sublist (py_lower k) (py_lower (topic_name t))
      \<or> (\<exists>d. description t = Some d \<and> sublist (py_lower k) (py_lower d))
      \<or> (\<exists>sub \<in> set (subtopics t). sublist (py_lower k) (py_lower sub))"
    by (rule contains_keyword_sublist)
  show "search_topics syl k = filter (\<lambda>t. contains_keyword t k) (topics syl)"
    by (simp add: search_topics_def)
  then show "search_topics syl k =
       filter (\<lambda>t. sublist (py_lower k) (py_lower (topic_name t))
                 \<or> (\<exists>d. description t = Some d \<and> sublist (py_lower k) (py_lower d))
                 \<or> (\<exists>sub \<in> set (subtopics t). sublist (py_lower k) (py_lower sub)))
         (topics syl)"
    by (simp only: contains_keyword_sublist)
qed

lemma lower_samples:
  "py_lower ''loop'' = ''loop''"
  "py_lower ''For Loops'' = ''for loops''"
  "py_lower ''If Statements'' = ''if statements''"
  "py_lower ''Control Flow'' = ''control flow''"
  "py_lower ''Branching and iteration'' = ''branching and iteration''"
  "py_lower ''Functions'' = ''functions''"
  "py_lower ''functions'' = ''functions''"
  "py_lower ''FUNCTIONS'' = ''functions''"
  "py_lower ''recursion'' = ''recursion''"
  by (simp_all add: py_lower_def lower_char_def)

theorem contains_keyword_and_search_witness:
  "''For Loops'' \<in> set (subtopics ex_topic_loops)
   \<and> sublist (py_lower ''loop'') (py_lower ''For Loops'')
   \<and> \<not> sublist (py_lower ''loop'') (py_lower (topic_name ex_topic_loops))
   \<and> \<not> (\<exists>d. description ex_topic_loops = Some d \<and> sublist (py_lower ''loop'') (py_lower d))
   \<and> contains_keyword ex_topic_loops ''loop''
   \<and> \<not> contains_keyword ex_topic_functions ''loop''
   \<and> search_topics ex_syllabus ''loop'' = [ex_topic_loops]"
proof -
  have sub: "''For Loops'' \<in> set (subtopics ex_topic_loops)"
    by (simp add: ex_topic_loops_def)
  have hit: "sublist (py_lower ''loop'') (py_lower ''For Loops'')"
    unfolding lower_samples py_in_sublist [symmetric] by simp
  have nm: "\<not> sublist (py_lower ''loop'') (py_lower (topic_name ex_topic_loops))"
    unfolding ex_topic_loops_def by (simp add: lower_samples py_in_sublist [symmetric])
  have ds: "\<not> (\<exists>d. description ex_topic_loops = Some d \<and> sublist (py_lower ''loop'') (py_lower d))"
    unfolding ex_topic_loops_def by (simp add: lower_samples py_in_sublist [symmetric])
  from sub hit have yes: "contains_keyword ex_topic_loops ''loop''"
    using contains_keyword_and_search [of ex_topic_loops "''loop''" ex_syllabus] by blast
  have "\<not> (sublist (py_lower ''loop'') (py_lower (topic_name ex_topic_functions))
      \<or> (\<exists>d. description ex_topic_functions = Some d \<and> sublist (py_lower ''loop'') (py_lower d))
      \<or> (\<exists>sub \<in> set (subtopics ex_topic_functions). sublist (py_lower ''loop'') (py_lower sub)))"
    unfolding ex_topic_functions_def by (simp add: lower_samples py_in_sublist [symmetric])
  then have no: "\<not> contains_keyword ex_topic_functions ''loop''"
    using contains_keyword_and_search [of ex_topic_functions "''loop''" ex_syllabus] by blast
  have "search_topics ex_syllabus ''loop''
      = filter (\<lambda>t. contains_keyword t ''loop'') (topics ex_syllabus)"
    using contains_keyword_and_search [of ex_topic_loops "''loop''" ex_syllabus] by blast
  with yes no have "search_topics ex_syllabus ''loop'' = [ex_topic_loops]"
    by (simp add: ex_syllabus_def)
  with sub hit nm ds yes no show ?thesis by blast
qed

text \<open>
  C8. \<^verbatim>\<open>get_topic_by_name\<close> returns the first topic of the syllabus whose lowercased name
  equals the lowercased query, and \<^verbatim>\<open>None\<close> exactly when no topic has such a name.
\<close>

theorem get_topic_by_name_first_match:
  "(get_topic_by_name syl n = Some t \<longleftrightarrow>
      (\<exists>i < length (topics syl). topics syl ! i = t
          \<and> py_lower (topic_name t) = py_lower n
          \<and> (\<forall>j < i. py_lower (topic_name (topics syl ! j)) \<noteq> py_lower n)))
   \<and> (get_topic_by_name syl n = None \<longleftrightarrow>
      (\<forall>t \<in> set (topics syl). py_lower (topic_name t) \<noteq> py_lower n))"
proof (intro conjI)
  show "get_topic_by_name syl n = Some t \<longleftrightarrow>
      (\<exists>i < length (topics syl). topics syl ! i = t
          \<and> py_lower (topic_name t) = py_lower n
          \<and> (\<forall>j < i. py_lower (topic_name (topics syl ! j)) \<noteq> py_lower n))"
    unfolding get_topic_by_name_def py_next_find find_Some_iff by blast
  show "get_topic_by_name syl n = None \<longleftrightarrow>
      (\<forall>t \<in> set (topics syl). py_lower (topic_name t) \<noteq> py_lower n)"
    unfolding get_topic_by_name_def py_next_find find_None_iff by blast
qed

theorem get_topic_by_name_first_match_witness:
  "topic_name ex_topic_functions = ''Functions''
   \<and> get_topic_by_name ex_syllabus ''functions'' = Some ex_topic_functions
   \<and> py_lower ''recursion'' \<notin> set (map (\<lambda>t. py_lower (topic_name t)) (topics ex_syllabus))
   \<and> get_topic_by_name ex_syllabus ''recursion'' = None"
proof -
  have tps: "topics ex_syllabus = [ex_topic_loops, ex_topic_functions]"
    by (simp add: ex_syllabus_def)
  have nms: "topic_name ex_topic_loops = ''Control Flow''" "topic_name ex_topic_functions = ''Functions''"
    by (simp_all add: ex_topic_loops_def ex_topic_functions_def)
  have "1 < length (topics ex_syllabus) \<and> topics ex_syllabus ! 1 = ex_topic_functions
      \<and> py_lower (topic_name ex_topic_functions) = py_lower ''functions''
      \<and> (\<forall>j < 1. py_lower (topic_name (topics ex_syllabus ! j)) \<noteq> py_lower ''functions'')"
    by (simp add: tps nms lower_samples)
  then have found: "get_topic_by_name ex_syllabus ''functions'' = Some ex_topic_functions"
    using get_topic_by_name_first_match [of ex_syllabus "''functions''" ex_topic_functions]
    by blast
  have none: "\<forall>t \<in> set (topics ex_syllabus). py_lower (topic_name t) \<noteq> py_lower ''recursion''"
    by (simp add: tps nms lower_samples)
  then have absent: "get_topic_by_name ex_syllabus ''recursion'' = None"
    using get_topic_by_name_first_match [of ex_syllabus "''recursion''" ex_topic_functions]
    by blast
  have "py_lower ''recursion'' \<notin> set (map (\<lambda>t. py_lower (topic_name t)) (topics ex_syllabus))"
    by (simp add: tps nms lower_samples)
  with nms found absent show ?thesis by blast
qed

text \<open>
  C10. Every topic contains the empty keyword, so searching for it returns the whole topic
  list in its order.
\<close>

theorem empty_keyword_matches_every_topic:
  "contains_keyword t [] \<and> search_topics syl [] = topics syl"
  by (simp add: search_topics_def contains_keyword_def Let_def py_lower_Nil py_in_sublist)

section \<open>No exception from the read operations\<close>

lemma weak_topics_returns: "\<exists>ws. get_weak_topics s qs th = Inr ws"
  by (simp add: get_weak_topics_def weak_topics_loop_closed)

lemma py_next_None: "(\<forall>x \<in> set xs. \<not> p x) \<Longrightarrow> py_next p xs = None"
  by (simp add: py_next_find find_None_iff)

text \<open>
  C6. The operations that divide (score percentage, percentage, class and section average)
  and the weak-topic loop that calls one of them always return a value, never the
  \<^verbatim>\<open>ZeroDivisionError\<close> of the model; where the divisor would be zero or the collection is
  empty the value is 0; a lookup by question id, student id or topic name that matches
  nothing returns \<^verbatim>\<open>None\<close>. Total score, total possible and keyword search contain no
  operation that can raise, so their models are plain functions: on empty input they give 0
  and the empty list.
\<close>

theorem core_operations_never_raise:
  "(\<exists>v. get_score_percentage r q = Inr v)
   \<and> (points q = 0 \<longrightarrow> get_score_percentage r q = Inr 0)
   \<and> (\<exists>v. get_percentage s qs = Inr v)
   \<and> (get_total_possible s qs = 0 \<longrightarrow> get_percentage s qs = Inr 0)
   \<and> (responses s = [] \<longrightarrow> get_total_score s qs = 0)
   \<and> (qs = [] \<longrightarrow> get_total_possible s qs = 0)
   \<and> (\<exists>ws. get_weak_topics s qs th = Inr ws)
   \<and> (\<exists>v. get_class_average qz = Inr v)
   \<and> (students qz = [] \<longrightarrow> get_class_average qz = Inr 0)
   \<and> (\<exists>v. get_section_average qz sec = Inr v)
   \<and> (get_students_by_section qz sec = [] \<longrightarrow> get_section_average qz sec = Inr 0)
   \<and> ((\<forall>x \<in> set (questions qz). question_id x \<noteq> qid) \<longrightarrow> get_question_by_id qz qid = None)
   \<and> ((\<forall>x \<in> set (students qz). student_id x \<noteq> sid) \<longrightarrow> get_student_by_id qz sid = None)
   \<and> ((\<forall>x \<in> set (topics syl). py_lower (topic_name x) \<noteq> py_lower n)
        \<longrightarrow> get_topic_by_name syl n = None)
   \<and> (topics syl = [] \<longrightarrow> search_topics syl k = [])"
proof (intro conjI impI)
  show "\<exists>v. get_score_percentage r q = Inr v"
    by (simp add: get_score_percentage_Inr)
  show "get_score_percentage r q = Inr 0" if "points q = 0"
    using that by (simp add: get_score_percentage_def)
  show "\<exists>v. get_percentage s qs = Inr v"
    by (simp add: get_percentage_Inr)
  show "get_percentage s qs = Inr 0" if "get_total_possible s qs = 0"
    using that by (simp add: get_percentage_def)
  show "get_total_score s qs = 0" if "responses s = []"
    using that by (simp add: get_total_score_def py_sum_def)
  show "get_total_possible s qs = 0" if "qs = []"
    using that by (simp add: get_total_possible_def py_sum_def)
  show "\<exists>ws. get_weak_topics s qs th = Inr ws"
    by (rule weak_topics_returns)
  show "\<exists>v. get_class_average qz = Inr v"
    by (simp add: class_average_closed)
  show "get_class_average qz = Inr 0" if "students qz = []"
    using that by (simp add: get_class_average_def)
  show "\<exists>v. get_section_average qz sec = Inr v"
    by (simp add: section_as_class class_average_closed)
  show "get_section_average qz sec = Inr 0" if "get_students_by_section qz sec = []"
    using that by (simp add: get_section_average_def)
  show "get_question_by_id qz qid = None" if "\<forall>x \<in> set (questions qz). question_id x \<noteq> qid"
    using that by (simp add: get_question_by_id_def py_next_None)
  show "get_student_by_id qz sid = None" if "\<forall>x \<in> set (students qz). student_id x \<noteq> sid"
    using that by (simp add: get_student_by_id_def py_next_None)
  show "get_topic_by_name syl n = None"
    if "\<forall>x \<in> set (topics syl). py_lower (topic_name x) \<noteq> py_lower n"
    using that by (simp add: get_topic_by_name_def py_next_None)
  show "search_topics syl k = []" if "topics syl = []"
    using that by (simp add: search_topics_def)
qed

theorem core_operations_never_raise_witness:
  "points (mk_question 1 0 None) = 0
   \<and> get_score_percentage (mk_response 1 5) (mk_question 1 0 None) = Inr 0
   \<and> get_total_possible (mk_student ''S0'' ''A'' []) [] = 0
   \<and> get_percentage (mk_student ''S0'' ''A'' []) [] = Inr 0
   \<and> get_total_score (mk_student ''S0'' ''A'' []) [] = 0
   \<and> students ex_empty_quiz = []
   \<and> get_class_average ex_empty_quiz = Inr 0
   \<and> get_students_by_section ex_empty_quiz ''A'' = []
   \<and> get_section_average ex_empty_quiz ''A'' = Inr 0
   \<and> map question_id (questions ex_empty_quiz) = [1, 2]
   \<and> get_question_by_id ex_empty_quiz 7 = None
   \<and> get_student_by_id ex_empty_quiz ''S1'' = None
   \<and> map (\<lambda>x. py_lower (topic_name x)) (topics ex_syllabus) = [''control flow'', ''functions'']
   \<and> py_lower ''recursion'' = ''recursion''
   \<and> get_topic_by_name ex_syllabus ''recursion'' = None
   \<and> topics (ex_syllabus\<lparr>topics := []\<rparr>) = []
   \<and> search_topics (ex_syllabus\<lparr>topics := []\<rparr>) ''loop'' = []"
proof -
  note inst = core_operations_never_raise
    [of "mk_response 1 5" "mk_question 1 0 None" "mk_student ''S0'' ''A'' []" "[]" 70
        ex_empty_quiz "''A''" 7 "''S1''" ex_syllabus "''recursion''" "''loop''"]
  note inst2 = core_operations_never_raise
    [of "mk_response 1 5" "mk_question 1 0 None" "mk_student ''S0'' ''A'' []" "[]" 70
        ex_empty_quiz "''A''" 7 "''S1''" "ex_syllabus\<lparr>topics := []\<rparr>" "''recursion''" "''loop''"]
  have h1: "points (mk_question 1 0 None) = 0"
    by (simp add: mk_question_def)
  have h2: "responses (mk_student ''S0'' ''A'' []) = []"
    by (simp add: mk_student_def)
  have h3: "students ex_empty_quiz = []"
    by (simp add: ex_empty_quiz_def)
  have h4: "get_students_by_section ex_empty_quiz ''A'' = []"
    by (simp add: get_students_by_section_def h3)
  have h5: "\<forall>x \<in> set (questions ex_empty_quiz). question_id x \<noteq> 7"
    by (simp add: ex_empty_quiz_def ex_questions_def mk_question_def)
  have h6: "\<forall>x \<in> set (students ex_empty_quiz). student_id x \<noteq> ''S1''"
    by (simp add: h3)
  have h7: "\<forall>x \<in> set (topics ex_syllabus). py_lower (topic_name x) \<noteq> py_lower ''recursion''"
    by (simp add: ex_syllabus_def ex_topic_loops_def ex_topic_functions_def lower_samples)
  have h8: "topics (ex_syllabus\<lparr>topics := []\<rparr>) = []"
    by simp
  from inst h1 have c1: "get_score_percentage (mk_response 1 5) (mk_question 1 0 None) = Inr 0"
    by blast
  from inst have c2: "get_total_possible (mk_student ''S0'' ''A'' []) [] = 0"
    by blast
  with inst have c3: "get_percentage (mk_student ''S0'' ''A'' []) [] = Inr 0"
    by blast
  from inst h2 have c4: "get_total_score (mk_student ''S0'' ''A'' []) [] = 0"
    by blast
  from inst h3 have c5: "get_class_average ex_empty_quiz = Inr 0"
    by blast
  from inst h4 have c6: "get_section_average ex_empty_quiz ''A'' = Inr 0"
    by blast
  from inst h5 have c7: "get_question_by_id ex_empty_quiz 7 = None"
    by blast
  from inst h6 have c8: "get_student_by_id ex_empty_quiz ''S1'' = None"
    by blast
  from inst h7 have c9: "get_topic_by_name ex_syllabus ''recursion'' = None"
    by blast
  from inst2 h8 have c10: "search_topics (ex_syllabus\<lparr>topics := []\<rparr>) ''loop'' = []"
    by blast
  have g1: "map question_id (questions ex_empty_quiz) = [1, 2]"
    by (simp add: ex_empty_quiz_def ex_questions_def mk_question_def)
  have g2: "map (\<lambda>x. py_lower (topic_name x)) (topics ex_syllabus)
      = [''control flow'', ''functions'']"
    by (simp add: ex_syllabus_def ex_topic_loops_def ex_topic_functions_def lower_samples)
  have g3: "py_lower ''recursion'' = ''recursion''"
    by (simp add: lower_samples)
  from h1 h3 h4 h8 g1 g2 g3 c1 c2 c3 c4 c5 c6 c7 c8 c9 c10 show ?thesis
    by (intro conjI)
qed

section \<open>The methods on the store\<close>

subsection \<open>Running the primitives\<close>

lemma bind_run: "m h = (Inr x, h') \<Longrightarrow> py_bind m f h = f x h'"
  by (simp add: py_bind_def)

lemma return_run: "py_return x h = (Inr x, h)"
  by (simp add: py_return_def)

lemma lookup_Some: "lookup h a = Some ob \<longleftrightarrow> a < length h \<and> h ! a = ob"
  by (auto simp: lookup_def)

lemma lookup_append: "lookup h a = Some ob \<Longrightarrow> lookup (h @ ext) a = Some ob"
  by (simp add: lookup_Some nth_append)

lemma load_run: "lookup h a = Some ob \<Longrightarrow> load a h = (Inr ob, h)"
  by (simp add: load_def lookup_Some)

lemma load_refs_run: "lookup h a = Some (ORefs xs) \<Longrightarrow> load_refs a h = (Inr xs, h)"
  by (simp add: load_refs_def bind_run [OF load_run] return_run)

lemma load_strs_run: "lookup h a = Some (OStrs xs) \<Longrightarrow> load_strs a h = (Inr xs, h)"
  by (simp add: load_strs_def bind_run [OF load_run] return_run)

lemma truediv_run: "b \<noteq> 0 \<Longrightarrow> truediv a b h = (Inr (a / b), h)"
  by (simp add: truediv_def py_truediv_def return_run)

lemma those_map_Some:
  "those (map g xs) = Some ys \<longleftrightarrow> list_all2 (\<lambda>x y. g x = Some y) xs ys"
proof (induction xs arbitrary: ys)
  case Nil
  then show ?case by auto
next
  case (Cons x xs)
  show ?case
    by (cases ys) (auto simp: Cons.IH split: option.splits)
qed

subsection \<open>What an abstraction says about the store\<close>

lemma abs_strs_Some: "abs_strs h a = Some xs \<longleftrightarrow> lookup h a = Some (OStrs xs)"
  by (auto simp: abs_strs_def split: option.splits obj.splits)

lemma abs_refs_Some:
  "abs_refs f h a = Some ys \<longleftrightarrow>
     (\<exists>xs. lookup h a = Some (ORefs xs) \<and> list_all2 (\<lambda>x y. f h x = Some y) xs ys)"
  by (auto simp: abs_refs_def those_map_Some split: option.splits obj.splits)

lemma abs_response_Some:
  "abs_response h a = Some r \<longleftrightarrow>
     lookup h a = Some (OResponse (r_question_id r) (response_text r) (points_earned r) (is_correct r))"
  by (cases r) (auto simp: abs_response_def split: option.splits obj.splits)

lemma abs_question_Some:
  "abs_question h a = Some q \<longleftrightarrow>
     (\<exists>sec. lookup h a = Some (OQuestion (question_id q) (question_text q) (correct_answer q)
                (points q) (mapped_topic q) sec)
          \<and> abs_strs h sec = Some (secondary_topics q))"
  by (cases q) (auto simp: abs_question_def split: option.splits obj.splits)

lemma abs_student_Some:
  "abs_student h a = Some s \<longleftrightarrow>
     (\<exists>rl. lookup h a = Some (OStudent (student_id s) (name s) (section_of s) rl)
          \<and> abs_refs abs_response h rl = Some (responses s))"
  by (cases s) (auto simp: abs_student_def split: option.splits obj.splits)

lemma abs_topic_Some:
  "abs_topic h a = Some t \<longleftrightarrow>
     (\<exists>sl. lookup h a = Some (OTopic (topic_name t) (description t) (week t) sl)
          \<and> abs_strs h sl = Some (subtopics t))"
  by (cases t) (auto simp: abs_topic_def split: option.splits obj.splits)

lemma abs_quiz_Some:
  "abs_quiz h a = Some qz \<longleftrightarrow>
     (\<exists>ql sl. lookup h a = Some (OQuiz (quiz_name qz) (course_name qz) (quiz_date qz) ql sl)
          \<and> abs_refs abs_question h ql = Some (questions qz)
          \<and> abs_refs abs_student h sl = Some (students qz))"
  by (cases qz) (auto simp: abs_quiz_def split: option.splits obj.splits)

lemma abs_syllabus_Some:
  "abs_syllabus h a = Some syl \<longleftrightarrow>
     (\<exists>tpl. lookup h a = Some (OSyllabus (syllabus_course_name syl) (course_code syl) tpl (raw_text syl))
          \<and> abs_refs abs_topic h tpl = Some (topics syl))"
  by (cases syl) (auto simp: abs_syllabus_def split: option.splits obj.splits)

subsection \<open>Abstractions survive new objects\<close>

lemma abs_strs_append: "abs_strs h a = Some xs \<Longrightarrow> abs_strs (h @ ext) a = Some xs"
  by (simp add: abs_strs_Some lookup_append)

lemma abs_refs_append:
  assumes "abs_refs f h a = Some ys"
    and "\<And>x y. f h x = Some y \<Longrightarrow> f (h @ ext) x = Some y"
  shows "abs_refs f (h @ ext) a = Some ys"
proof -
  from assms(1) obtain xs where l: "lookup h a = Some (ORefs xs)"
    and r: "list_all2 (\<lambda>x y. f h x = Some y) xs ys"
    by (auto simp: abs_refs_Some)
  from r have "list_all2 (\<lambda>x y. f (h @ ext) x = Some y) xs ys"
    by (rule list_all2_mono) (rule assms(2))
  with l show ?thesis
    by (auto simp: abs_refs_Some lookup_append)
qed

lemma abs_response_append: "abs_response h a = Some r \<Longrightarrow> abs_response (h @ ext) a = Some r"
  by (simp add: abs_response_Some lookup_append)

lemma abs_question_append: "abs_question h a = Some q \<Longrightarrow> abs_question (h @ ext) a = Some q"
  by (auto simp: abs_question_Some lookup_append abs_strs_append)

lemma abs_responses_append:
  "abs_refs abs_response h a = Some rs \<Longrightarrow> abs_refs abs_response (h @ ext) a = Some rs"
  by (erule abs_refs_append) (rule abs_response_append)

lemma abs_student_append: "abs_student h a = Some s \<Longrightarrow> abs_student (h @ ext) a = Some s"
  by (auto simp: abs_student_Some lookup_append abs_responses_append)

lemma abs_topic_append: "abs_topic h a = Some t \<Longrightarrow> abs_topic (h @ ext) a = Some t"
  by (auto simp: abs_topic_Some lookup_append abs_strs_append)

lemma abs_questions_append:
  "abs_refs abs_question h a = Some qs \<Longrightarrow> abs_refs abs_question (h @ ext) a = Some qs"
  by (erule abs_refs_append) (rule abs_question_append)

lemma abs_students_append:
  "abs_refs abs_student h a = Some ss \<Longrightarrow> abs_refs abs_student (h @ ext) a = Some ss"
  by (erule abs_refs_append) (rule abs_student_append)

lemma abs_quiz_append: "abs_quiz h a = Some qz \<Longrightarrow> abs_quiz (h @ ext) a = Some qz"
  by (auto simp: abs_quiz_Some lookup_append abs_questions_append abs_students_append)

lemma abs_topics_append:
  "abs_refs abs_topic h a = Some ts \<Longrightarrow> abs_refs abs_topic (h @ ext) a = Some ts"
  by (erule abs_refs_append) (rule abs_topic_append)

lemma abs_syllabus_append: "abs_syllabus h a = Some syl \<Longrightarrow> abs_syllabus (h @ ext) a = Some syl"
  by (auto simp: abs_syllabus_Some lookup_append abs_topics_append)

subsection \<open>Loops that only read\<close>

lemma sum_gen_run:
  "list_all2 (\<lambda>x y. f x h = (Inr (F y), h)) xs ys \<Longrightarrow>
   sum_gen f xs acc h = (Inr (py_sum_from acc (map F ys)), h)"
proof (induction xs ys arbitrary: acc rule: list_all2_induct)
  case Nil
  then show ?case by (simp add: return_run)
next
  case (Cons x xs y ys)
  then show ?case by (simp add: bind_run)
qed

lemma next_gen_run:
  "list_all2 (\<lambda>x y. p x h = (Inr (P y), h) \<and> R x y) xs ys \<Longrightarrow>
   \<exists>r. next_gen p xs h = (Inr r, h) \<and> rel_option R r (py_next P ys)"
proof (induction xs ys rule: list_all2_induct)
  case Nil
  then show ?case by (simp add: return_run)
next
  case (Cons x xs y ys)
  then show ?case by (auto simp: bind_run return_run)
qed

subsection \<open>The helpers of a response and of a student\<close>

lemma getattr_run:
  "lookup h a = Some ob \<Longrightarrow> field ob h = (Inr v, h) \<Longrightarrow> getattr a field h = (Inr v, h)"
  by (simp add: getattr_def py_bind_def load_run)

lemma attr_points_run:
  "abs_question h q = Some qq \<Longrightarrow> getattr q attr_points h = (Inr (points qq), h)"
  by (auto simp: abs_question_Some return_run intro!: getattr_run)

lemma attr_points_earned_run:
  "abs_response h r = Some rr \<Longrightarrow>
   getattr r attr_points_earned h = (Inr (points_earned rr), h)"
  by (auto simp: abs_response_Some return_run intro!: getattr_run)

lemma h_get_score_percentage_run:
  assumes "abs_response h r = Some rr" "abs_question h q = Some qq"
  shows "h_get_score_percentage r q h =
    (Inr (if points qq = 0 then 0 else points_earned rr / points qq * 100), h)"
  by (simp add: h_get_score_percentage_def py_bind_def attr_points_run [OF assms(2)]
      attr_points_earned_run [OF assms(1)] truediv_run return_run)

lemma h_get_total_score_run:
  assumes "abs_student h a = Some s"
  shows "h_get_total_score a ql h = (Inr (get_total_score s qs), h)"
proof -
  from assms obtain rl rs where a: "lookup h a = Some (OStudent (student_id s) (name s) (section_of s) rl)"
    and l: "lookup h rl = Some (ORefs rs)"
    and r: "list_all2 (\<lambda>x y. abs_response h x = Some y) rs (responses s)"
    by (auto simp: abs_student_Some abs_refs_Some)
  from r have "list_all2 (\<lambda>x y. getattr x attr_points_earned h = (Inr (points_earned y), h))
      rs (responses s)"
    by (rule list_all2_mono) (rule attr_points_earned_run)
  then have "sum_gen (\<lambda>r. getattr r attr_points_earned) rs 0 h
      = (Inr (py_sum (map points_earned (responses s))), h)"
    by (simp add: sum_gen_run py_sum_def)
  then show ?thesis
    by (simp add: h_get_total_score_def get_total_score_def py_bind_def
        getattr_run [OF a, of attr_responses rl] load_refs_run [OF l] return_run)
qed

lemma h_get_total_possible_run:
  assumes "abs_refs abs_question h ql = Some qs"
  shows "h_get_total_possible a ql h = (Inr (get_total_possible s qs), h)"
proof -
  from assms obtain xs where l: "lookup h ql = Some (ORefs xs)"
    and r: "list_all2 (\<lambda>x y. abs_question h x = Some y) xs qs"
    by (auto simp: abs_refs_Some)
  from r have "list_all2 (\<lambda>x y. getattr x attr_points h = (Inr (points y), h)) xs qs"
    by (rule list_all2_mono) (rule attr_points_run)
  then have "sum_gen (\<lambda>q. getattr q attr_points) xs 0 h = (Inr (py_sum (map points qs)), h)"
    by (simp add: sum_gen_run py_sum_def)
  then show ?thesis
    by (simp add: h_get_total_possible_def get_total_possible_def py_bind_def load_refs_run [OF l])
qed

lemma h_get_percentage_run:
  assumes "abs_student h a = Some s" "abs_refs abs_question h ql = Some qs"
  shows "h_get_percentage a ql h = (Inr (percentage_value s qs), h)"
proof -
  have tp: "h_get_total_possible a ql h = (Inr (get_total_possible s qs), h)"
    using assms(2) by (rule h_get_total_possible_run)
  have ts: "h_get_total_score a ql h = (Inr (get_total_score s qs), h)"
    using assms(1) by (rule h_get_total_score_run)
  show ?thesis
    by (simp add: h_get_percentage_def py_bind_def tp ts truediv_run return_run)
      (simp add: percentage_value_def get_total_possible_def get_total_score_def py_sum_eq)
qed

subsection \<open>Loops that fill a new list\<close>

lemma append_str_run:
  "append_str (length h) s (h @ [OStrs acc]) = (Inr (), h @ [OStrs (acc @ [s])])"
proof -
  have "lookup (h @ [OStrs acc]) (length h) = Some (OStrs acc)"
    by (simp add: lookup_Some)
  then have "load_strs (length h) (h @ [OStrs acc]) = (Inr acc, h @ [OStrs acc])"
    by (rule load_strs_run)
  then show ?thesis
    by (simp add: append_str_def py_bind_def store_def)
qed

lemma append_ref_run:
  "append_ref (length h) x (h @ [ORefs acc]) = (Inr (), h @ [ORefs (acc @ [x])])"
proof -
  have "lookup (h @ [ORefs acc]) (length h) = Some (ORefs acc)"
    by (simp add: lookup_Some)
  then have "load_refs (length h) (h @ [ORefs acc]) = (Inr acc, h @ [ORefs acc])"
    by (rule load_refs_run)
  then show ?thesis
    by (simp add: append_ref_def py_bind_def store_def)
qed

lemma for_each_acc:
  "list_all2 (\<lambda>x y. \<forall>acc. body x (H acc) = (Inr (), H (acc @ G x y))) xs ys \<Longrightarrow>
   for_each body xs (H acc) = (Inr (), H (acc @ concat (map (\<lambda>(x, y). G x y) (zip xs ys))))"
proof (induction xs ys arbitrary: acc rule: list_all2_induct)
  case Nil
  then show ?case by (simp add: return_run)
next
  case (Cons x xs y ys)
  then show ?case by (simp add: py_bind_def)
qed

lemma concat_zip_snd:
  "length xs = length ys \<Longrightarrow> concat (map (\<lambda>(x, y). G y) (zip xs ys)) = concat (map G ys)"
  by (induction xs ys rule: list_induct2) simp_all

lemma comp_refs_run:
  assumes "list_all2 (\<lambda>x y. \<forall>acc. p x (h @ [ORefs acc]) = (Inr (P y), h @ [ORefs acc])) xs ys"
  shows "comp_refs p xs h =
    (Inr (length h), h @ [ORefs (concat (map (\<lambda>(x, y). if P y then [x] else []) (zip xs ys)))])"
proof -
  let ?body = "\<lambda>x. py_bind (p x) (\<lambda>b. if b then append_ref (length h) x else py_return ())"
  from assms have "list_all2 (\<lambda>x y. \<forall>acc. ?body x (h @ [ORefs acc])
      = (Inr (), h @ [ORefs (acc @ (if P y then [x] else []))])) xs ys"
    by (rule list_all2_mono) (simp add: py_bind_def append_ref_run return_run)
  then have "for_each ?body xs (h @ [ORefs []])
      = (Inr (), h @ [ORefs ([] @ concat (map (\<lambda>(x, y). if P y then [x] else []) (zip xs ys)))])"
    by (rule for_each_acc [where H = "\<lambda>acc. h @ [ORefs acc]"])
  then show ?thesis
    by (simp add: comp_refs_def py_bind_def alloc_def return_run)
qed

lemma comp_strs_run:
  assumes "list_all2 (\<lambda>x y. \<forall>acc. f x (h @ [OStrs acc]) = (Inr (F y), h @ [OStrs acc])) xs ys"
  shows "comp_strs f xs h = (Inr (length h), h @ [OStrs (map F ys)])"
proof -
  let ?body = "\<lambda>x. py_bind (f x) (\<lambda>s. append_str (length h) s)"
  from assms have "list_all2 (\<lambda>x y. \<forall>acc. ?body x (h @ [OStrs acc])
      = (Inr (), h @ [OStrs (acc @ [F y])])) xs ys"
    by (rule list_all2_mono) (simp add: py_bind_def append_str_run)
  then have "for_each ?body xs (h @ [OStrs []])
      = (Inr (), h @ [OStrs ([] @ concat (map (\<lambda>(x, y). [F y]) (zip xs ys)))])"
    by (rule for_each_acc [where H = "\<lambda>acc. h @ [OStrs acc]"])
  moreover from assms have "length xs = length ys"
    by (rule list_all2_lengthD)
  then have "concat (map (\<lambda>(x, y). [F y]) (zip xs ys)) = map F ys"
    by (induction xs ys rule: list_induct2) simp_all
  ultimately show ?thesis
    by (simp add: comp_strs_def py_bind_def alloc_def return_run)
qed

lemma filtered_refs:
  "list_all2 R xs ys \<Longrightarrow>
   list_all2 R (concat (map (\<lambda>(x, y). if P y then [x] else []) (zip xs ys))) (filter P ys)"
  by (induction xs ys rule: list_all2_induct) simp_all

lemma list_of_set_run:
  "lookup h l = Some (OStrs xs) \<Longrightarrow>
   list_of_set l h = (Inr (length h), h @ [OStrs (py_list_set xs)])"
  by (simp add: list_of_set_def py_bind_def load_strs_run alloc_def)

subsection \<open>Attribute reads on well-formed objects\<close>

lemma question_id_of_question:
  "abs_question h q = Some qq \<Longrightarrow> getattr q attr_question_id h = (Inr (question_id qq), h)"
  by (auto simp: abs_question_Some return_run intro!: getattr_run)

lemma question_id_of_response:
  "abs_response h r = Some rr \<Longrightarrow> getattr r attr_question_id h = (Inr (r_question_id rr), h)"
  by (auto simp: abs_response_Some return_run intro!: getattr_run)

lemma mapped_topic_run:
  "abs_question h q = Some qq \<Longrightarrow> getattr q attr_mapped_topic h = (Inr (mapped_topic qq), h)"
  by (auto simp: abs_question_Some return_run intro!: getattr_run)

lemma student_id_run:
  "abs_student h a = Some s \<Longrightarrow> getattr a attr_student_id h = (Inr (student_id s), h)"
  by (auto simp: abs_student_Some return_run intro!: getattr_run)

lemma section_run:
  "abs_student h a = Some s \<Longrightarrow> getattr a attr_section h = (Inr (section_of s), h)"
  by (auto simp: abs_student_Some return_run intro!: getattr_run)

lemma topic_name_run:
  "abs_topic h a = Some t \<Longrightarrow> getattr a attr_name h = (Inr (topic_name t), h)"
  by (auto simp: abs_topic_Some return_run intro!: getattr_run)

lemma description_run:
  "abs_topic h a = Some t \<Longrightarrow> getattr a attr_description h = (Inr (description t), h)"
  by (auto simp: abs_topic_Some return_run intro!: getattr_run)

lemma subtopics_run:
  assumes "abs_topic h a = Some t"
  obtains sl where "getattr a attr_subtopics h = (Inr sl, h)"
    and "load_strs sl h = (Inr (subtopics t), h)"
proof -
  from assms obtain sl where a: "lookup h a = Some (OTopic (topic_name t) (description t) (week t) sl)"
    and s: "lookup h sl = Some (OStrs (subtopics t))"
    by (auto simp: abs_topic_Some abs_strs_Some)
  have g: "getattr a attr_subtopics h = (Inr sl, h)"
    by (rule getattr_run [OF a]) (simp add: return_run)
  from g load_strs_run [OF s] show ?thesis by (rule that)
qed

lemma quiz_questions_run:
  assumes "abs_quiz h a = Some qz"
  obtains ql where "getattr a attr_questions h = (Inr ql, h)"
    and "abs_refs abs_question h ql = Some (questions qz)"
proof -
  from assms obtain ql sl where a: "lookup h a = Some (OQuiz (quiz_name qz) (course_name qz) (quiz_date qz) ql sl)"
    and q: "abs_refs abs_question h ql = Some (questions qz)"
    by (auto simp: abs_quiz_Some)
  have g: "getattr a attr_questions h = (Inr ql, h)"
    by (rule getattr_run [OF a]) (simp add: return_run)
  from g q show ?thesis by (rule that)
qed

lemma quiz_students_run:
  assumes "abs_quiz h a = Some qz"
  obtains sl xs where "getattr a attr_students h = (Inr sl, h)"
    and "load_refs sl h = (Inr xs, h)"
    and "list_all2 (\<lambda>x y. abs_student h x = Some y) xs (students qz)"
proof -
  from assms obtain ql sl xs where a: "lookup h a = Some (OQuiz (quiz_name qz) (course_name qz) (quiz_date qz) ql sl)"
    and l: "lookup h sl = Some (ORefs xs)"
    and r: "list_all2 (\<lambda>x y. abs_student h x = Some y) xs (students qz)"
    by (auto simp: abs_quiz_Some abs_refs_Some)
  have g: "getattr a attr_students h = (Inr sl, h)"
    by (rule getattr_run [OF a]) (simp add: return_run)
  from g load_refs_run [OF l] r show ?thesis by (rule that)
qed

lemma syllabus_topics_run:
  assumes "abs_syllabus h a = Some syl"
  obtains tpl xs where "getattr a attr_topics h = (Inr tpl, h)"
    and "load_refs tpl h = (Inr xs, h)"
    and "list_all2 (\<lambda>x y. abs_topic h x = Some y) xs (topics syl)"
proof -
  from assms obtain tpl xs where a: "lookup h a = Some (OSyllabus (syllabus_course_name syl) (course_code syl) tpl (raw_text syl))"
    and l: "lookup h tpl = Some (ORefs xs)"
    and r: "list_all2 (\<lambda>x y. abs_topic h x = Some y) xs (topics syl)"
    by (auto simp: abs_syllabus_Some abs_refs_Some)
  have g: "getattr a attr_topics h = (Inr tpl, h)"
    by (rule getattr_run [OF a]) (simp add: return_run)
  from g load_refs_run [OF l] r show ?thesis by (rule that)
qed

subsection \<open>The lookups\<close>

lemma h_get_question_by_id_run:
  assumes "abs_quiz h a = Some qz"
  shows "\<exists>r. h_get_question_by_id a qid h = (Inr r, h)
           \<and> rel_option (\<lambda>x y. abs_question h x = Some y) r (get_question_by_id qz qid)"
proof -
  from assms obtain ql sl xs where a: "lookup h a = Some (OQuiz (quiz_name qz) (course_name qz) (quiz_date qz) ql sl)"
    and l: "lookup h ql = Some (ORefs xs)"
    and r: "list_all2 (\<lambda>x y. abs_question h x = Some y) xs (questions qz)"
    by (auto simp: abs_quiz_Some abs_refs_Some)
  let ?p = "\<lambda>q. py_bind (getattr q attr_question_id) (\<lambda>i. py_return (i = qid))"
  from r have "list_all2 (\<lambda>x y. ?p x h = (Inr (question_id y = qid), h) \<and> abs_question h x = Some y)
      xs (questions qz)"
    by (rule list_all2_mono) (simp add: py_bind_def question_id_of_question return_run)
  then obtain res where "next_gen ?p xs h = (Inr res, h)"
    and "rel_option (\<lambda>x y. abs_question h x = Some y) res
           (py_next (\<lambda>y. question_id y = qid) (questions qz))"
    using next_gen_run [of ?p h "\<lambda>y. question_id y = qid" "\<lambda>x y. abs_question h x = Some y"]
    by blast
  then show ?thesis
    by (simp add: h_get_question_by_id_def get_question_by_id_def py_bind_def
        getattr_run [OF a, of attr_questions ql] return_run load_refs_run [OF l])
qed

lemma h_get_student_by_id_run:
  assumes "abs_quiz h a = Some qz"
  shows "\<exists>r. h_get_student_by_id a sid h = (Inr r, h)
           \<and> rel_option (\<lambda>x y. abs_student h x = Some y) r (get_student_by_id qz sid)"
proof -
  from assms obtain ql sl xs where a: "lookup h a = Some (OQuiz (quiz_name qz) (course_name qz) (quiz_date qz) ql sl)"
    and l: "lookup h sl = Some (ORefs xs)"
    and r: "list_all2 (\<lambda>x y. abs_student h x = Some y) xs (students qz)"
    by (auto simp: abs_quiz_Some abs_refs_Some)
  let ?p = "\<lambda>s. py_bind (getattr s attr_student_id) (\<lambda>i. py_return (i = sid))"
  from r have "list_all2 (\<lambda>x y. ?p x h = (Inr (student_id y = sid), h) \<and> abs_student h x = Some y)
      xs (students qz)"
    by (rule list_all2_mono) (simp add: py_bind_def student_id_run return_run)
  then obtain res where "next_gen ?p xs h = (Inr res, h)"
    and "rel_option (\<lambda>x y. abs_student h x = Some y) res
           (py_next (\<lambda>y. student_id y = sid) (students qz))"
    using next_gen_run [of ?p h "\<lambda>y. student_id y = sid" "\<lambda>x y. abs_student h x = Some y"]
    by blast
  then show ?thesis
    by (simp add: h_get_student_by_id_def get_student_by_id_def py_bind_def
        getattr_run [OF a, of attr_students sl] return_run load_refs_run [OF l])
qed

lemma h_get_topic_by_name_run:
  assumes "abs_syllabus h a = Some syl"
  shows "\<exists>r. h_get_topic_by_name a n h = (Inr r, h)
           \<and> rel_option (\<lambda>x y. abs_topic h x = Some y) r (get_topic_by_name syl n)"
proof -
  from assms obtain tpl xs where g: "getattr a attr_topics h = (Inr tpl, h)"
    and l: "load_refs tpl h = (Inr xs, h)"
    and r: "list_all2 (\<lambda>x y. abs_topic h x = Some y) xs (topics syl)"
    by (rule syllabus_topics_run)
  let ?p = "\<lambda>t. py_bind (getattr t attr_name) (\<lambda>nm. py_return (py_lower nm = py_lower n))"
  from r have "list_all2 (\<lambda>x y. ?p x h = (Inr (py_lower (topic_name y) = py_lower n), h)
      \<and> abs_topic h x = Some y) xs (topics syl)"
    by (rule list_all2_mono) (simp add: py_bind_def topic_name_run return_run)
  then obtain res where "next_gen ?p xs h = (Inr res, h)"
    and "rel_option (\<lambda>x y. abs_topic h x = Some y) res
           (py_next (\<lambda>y. py_lower (topic_name y) = py_lower n) (topics syl))"
    using next_gen_run [of ?p h "\<lambda>y. py_lower (topic_name y) = py_lower n"
        "\<lambda>x y. abs_topic h x = Some y"]
    by blast
  then show ?thesis
    by (simp add: h_get_topic_by_name_def get_topic_by_name_def py_bind_def g l)
qed

lemma h_contains_keyword_run:
  assumes "abs_topic h a = Some t"
  shows "h_contains_keyword a k h = (Inr (contains_keyword t k), h)"
proof -
  from assms obtain sl where g: "getattr a attr_subtopics h = (Inr sl, h)"
    and l: "load_strs sl h = (Inr (subtopics t), h)"
    by (rule subtopics_run)
  show ?thesis
    unfolding h_contains_keyword_def contains_keyword_def Let_def
    by (simp add: py_bind_def topic_name_run [OF assms] description_run [OF assms] g l return_run)
qed

subsection \<open>Averages\<close>

lemma percentage_of_run:
  assumes "abs_quiz h a = Some qz" "abs_student h s = Some st"
  shows "percentage_of a s h = (Inr (percentage_value st (questions qz)), h)"
proof -
  from assms(1) obtain ql where g: "getattr a attr_questions h = (Inr ql, h)"
    and q: "abs_refs abs_question h ql = Some (questions qz)"
    by (rule quiz_questions_run)
  show ?thesis
    by (simp add: percentage_of_def py_bind_def g h_get_percentage_run [OF assms(2) q])
qed

lemma sum_percentages_run:
  assumes "abs_quiz h a = Some qz" "list_all2 (\<lambda>x y. abs_student h x = Some y) xs ss"
  shows "sum_gen (percentage_of a) xs 0 h
    = (Inr (sum_list (map (\<lambda>s. percentage_value s (questions qz)) ss)), h)"
proof -
  from assms(2) have "list_all2 (\<lambda>x y. percentage_of a x h
      = (Inr (percentage_value y (questions qz)), h)) xs ss"
    by (rule list_all2_mono) (rule percentage_of_run [OF assms(1)])
  then show ?thesis
    by (simp add: sum_gen_run py_sum_from_eq)
qed

lemma h_get_class_average_run:
  assumes "abs_quiz h a = Some qz"
  shows "\<exists>v. h_get_class_average a h = (Inr v, h) \<and> get_class_average qz = Inr v"
proof -
  from assms obtain sl xs where g: "getattr a attr_students h = (Inr sl, h)"
    and l: "load_refs sl h = (Inr xs, h)"
    and r: "list_all2 (\<lambda>x y. abs_student h x = Some y) xs (students qz)"
    by (rule quiz_students_run)
  from r have len: "length xs = length (students qz)"
    by (rule list_all2_lengthD)
  then have e: "xs = [] \<longleftrightarrow> students qz = []"
    by auto
  note s = sum_percentages_run [OF assms r]
  show ?thesis
    by (simp add: h_get_class_average_def py_bind_def g l s e len return_run truediv_run
        class_average_closed)
qed

lemma h_get_students_by_section_run:
  assumes "abs_quiz h a = Some qz"
  shows "\<exists>rs. h_get_students_by_section a sec h = (Inr (length h), h @ [ORefs rs])
           \<and> list_all2 (\<lambda>x y. abs_student h x = Some y) rs (get_students_by_section qz sec)"
proof -
  from assms obtain sl xs where g: "getattr a attr_students h = (Inr sl, h)"
    and l: "load_refs sl h = (Inr xs, h)"
    and r: "list_all2 (\<lambda>x y. abs_student h x = Some y) xs (students qz)"
    by (rule quiz_students_run)
  let ?p = "\<lambda>s. py_bind (getattr s attr_section) (\<lambda>x. py_return (x = sec))"
  let ?rs = "concat (map (\<lambda>(x, y). if section_of y = sec then [x] else []) (zip xs (students qz)))"
  from r have "list_all2 (\<lambda>x y. \<forall>acc. ?p x (h @ [ORefs acc])
      = (Inr (section_of y = sec), h @ [ORefs acc])) xs (students qz)"
    by (rule list_all2_mono)
      (simp add: py_bind_def section_run [OF abs_student_append] return_run)
  then have "comp_refs ?p xs h = (Inr (length h), h @ [ORefs ?rs])"
    by (rule comp_refs_run)
  then have "h_get_students_by_section a sec h = (Inr (length h), h @ [ORefs ?rs])"
    by (simp add: h_get_students_by_section_def py_bind_def g l)
  moreover from r have "list_all2 (\<lambda>x y. abs_student h x = Some y) ?rs
      (filter (\<lambda>y. section_of y = sec) (students qz))"
    by (rule filtered_refs)
  ultimately show ?thesis
    by (auto simp: get_students_by_section_def)
qed

lemma h_get_section_average_run:
  assumes "abs_quiz h a = Some qz"
  shows "\<exists>rs v. h_get_section_average a sec h = (Inr v, h @ [ORefs rs])
           \<and> get_section_average qz sec = Inr v"
proof -
  from h_get_students_by_section_run [OF assms, of sec]
  obtain rs where c: "h_get_students_by_section a sec h = (Inr (length h), h @ [ORefs rs])"
    and r: "list_all2 (\<lambda>x y. abs_student h x = Some y) rs (get_students_by_section qz sec)"
    by blast
  let ?h = "h @ [ORefs rs]"
  have l: "load_refs (length h) ?h = (Inr rs, ?h)"
    by (rule load_refs_run) (simp add: lookup_Some)
  from r have r': "list_all2 (\<lambda>x y. abs_student ?h x = Some y) rs (get_students_by_section qz sec)"
    by (rule list_all2_mono) (rule abs_student_append)
  from r have len: "length rs = length (get_students_by_section qz sec)"
    by (rule list_all2_lengthD)
  then have e: "rs = [] \<longleftrightarrow> get_students_by_section qz sec = []"
    by auto
  note s = sum_percentages_run [OF abs_quiz_append [OF assms] r']
  have "h_get_section_average a sec h
      = (Inr (if get_students_by_section qz sec = [] then 0
              else sum_list (map (\<lambda>s. percentage_value s (questions qz))
                     (get_students_by_section qz sec))
                   / real (length (get_students_by_section qz sec))), ?h)"
    by (simp add: h_get_section_average_def py_bind_def c l s e len return_run truediv_run)
  moreover have "get_section_average qz sec
      = Inr (if get_students_by_section qz sec = [] then 0
              else sum_list (map (\<lambda>s. percentage_value s (questions qz))
                     (get_students_by_section qz sec))
                   / real (length (get_students_by_section qz sec)))"
    by (simp add: section_as_class class_average_closed)
  ultimately show ?thesis by auto
qed

subsection \<open>Lists of strings and of topics\<close>

lemma h_get_all_sections_run:
  assumes "abs_quiz h a = Some qz"
  shows "h_get_all_sections a h
    = (Inr (Suc (length h)),
       h @ [OStrs (map section_of (students qz)), OStrs (get_all_sections qz)])"
proof -
  from assms obtain sl xs where g: "getattr a attr_students h = (Inr sl, h)"
    and l: "load_refs sl h = (Inr xs, h)"
    and r: "list_all2 (\<lambda>x y. abs_student h x = Some y) xs (students qz)"
    by (rule quiz_students_run)
  from r have "list_all2 (\<lambda>x y. \<forall>acc. getattr x attr_section (h @ [OStrs acc])
      = (Inr (section_of y), h @ [OStrs acc])) xs (students qz)"
    by (rule list_all2_mono) (simp add: section_run [OF abs_student_append])
  then have c: "comp_strs (\<lambda>s. getattr s attr_section) xs h
      = (Inr (length h), h @ [OStrs (map section_of (students qz))])"
    by (rule comp_strs_run)
  have s: "list_of_set (length h) (h @ [OStrs (map section_of (students qz))])
      = (Inr (Suc (length h)),
         (h @ [OStrs (map section_of (students qz))])
           @ [OStrs (py_list_set (map section_of (students qz)))])"
    using list_of_set_run [of "h @ [OStrs (map section_of (students qz))]" "length h"
        "map section_of (students qz)"]
    by (simp add: lookup_Some)
  show ?thesis
    by (simp add: h_get_all_sections_def py_bind_def g l c s get_all_sections_def)
qed

lemma h_search_topics_run:
  assumes "abs_syllabus h a = Some syl"
  shows "\<exists>rs. h_search_topics a k h = (Inr (length h), h @ [ORefs rs])
           \<and> list_all2 (\<lambda>x y. abs_topic h x = Some y) rs (search_topics syl k)"
proof -
  from assms obtain tpl xs where g: "getattr a attr_topics h = (Inr tpl, h)"
    and l: "load_refs tpl h = (Inr xs, h)"
    and r: "list_all2 (\<lambda>x y. abs_topic h x = Some y) xs (topics syl)"
    by (rule syllabus_topics_run)
  let ?rs = "concat (map (\<lambda>(x, y). if contains_keyword y k then [x] else []) (zip xs (topics syl)))"
  from r have "list_all2 (\<lambda>x y. \<forall>acc. h_contains_keyword x k (h @ [ORefs acc])
      = (Inr (contains_keyword y k), h @ [ORefs acc])) xs (topics syl)"
    by (rule list_all2_mono) (simp add: h_contains_keyword_run [OF abs_topic_append])
  then have "comp_refs (\<lambda>t. h_contains_keyword t k) xs h = (Inr (length h), h @ [ORefs ?rs])"
    by (rule comp_refs_run)
  then have "h_search_topics a k h = (Inr (length h), h @ [ORefs ?rs])"
    by (simp add: h_search_topics_def py_bind_def g l)
  moreover from r have "list_all2 (\<lambda>x y. abs_topic h x = Some y) ?rs
      (filter (\<lambda>y. contains_keyword y k) (topics syl))"
    by (rule filtered_refs)
  ultimately show ?thesis
    by (auto simp: search_topics_def)
qed

lemma h_get_all_topic_names_run:
  assumes "abs_syllabus h a = Some syl"
  shows "h_get_all_topic_names a h = (Inr (length h), h @ [OStrs (get_all_topic_names syl)])"
proof -
  from assms obtain tpl xs where g: "getattr a attr_topics h = (Inr tpl, h)"
    and l: "load_refs tpl h = (Inr xs, h)"
    and r: "list_all2 (\<lambda>x y. abs_topic h x = Some y) xs (topics syl)"
    by (rule syllabus_topics_run)
  from r have "list_all2 (\<lambda>x y. \<forall>acc. getattr x attr_name (h @ [OStrs acc])
      = (Inr (topic_name y), h @ [OStrs acc])) xs (topics syl)"
    by (rule list_all2_mono) (simp add: topic_name_run [OF abs_topic_append])
  then have "comp_strs (\<lambda>t. getattr t attr_name) xs h
      = (Inr (length h), h @ [OStrs (map topic_name (topics syl))])"
    by (rule comp_strs_run)
  then show ?thesis
    by (simp add: h_get_all_topic_names_def py_bind_def g l get_all_topic_names_def)
qed

subsection \<open>Weak topics\<close>

lemma weak_topics_body_run:
  assumes r: "abs_response h r = Some rr" and q: "abs_refs abs_question h ql = Some qs"
  shows "weak_topics_body ql th (length h) r (h @ [OStrs acc])
    = (Inr (), h @ [OStrs (acc @ response_topics qs th rr)])"
proof -
  let ?h = "h @ [OStrs acc]"
  let ?p = "\<lambda>q. py_bind (getattr q attr_question_id) (\<lambda>qid.
             py_bind (getattr r attr_question_id) (\<lambda>rid. py_return (qid = rid)))"
  from r have r1: "abs_response ?h r = Some rr"
    by (rule abs_response_append)
  from q have "abs_refs abs_question ?h ql = Some qs"
    by (rule abs_questions_append)
  then obtain xs where l: "lookup ?h ql = Some (ORefs xs)"
    and a: "list_all2 (\<lambda>x y. abs_question ?h x = Some y) xs qs"
    by (auto simp: abs_refs_Some)
  from a have "list_all2 (\<lambda>x y. ?p x ?h = (Inr (question_id y = r_question_id rr), ?h)
      \<and> abs_question ?h x = Some y) xs qs"
    by (rule list_all2_mono)
      (simp add: py_bind_def question_id_of_question question_id_of_response [OF r1] return_run)
  then obtain res where n: "next_gen ?p xs ?h = (Inr res, ?h)"
    and rel: "rel_option (\<lambda>x y. abs_question ?h x = Some y) res
           (py_next (\<lambda>y. question_id y = r_question_id rr) qs)"
    using next_gen_run [of ?p ?h "\<lambda>y. question_id y = r_question_id rr"
        "\<lambda>x y. abs_question ?h x = Some y"]
    by blast
  note start = load_refs_run [OF l]
  show ?thesis
  proof (cases "py_next (\<lambda>y. question_id y = r_question_id rr) qs")
    case None
    with rel have "res = None" by simp
    with None n show ?thesis
      by (simp add: weak_topics_body_def py_bind_def start return_run response_topics_def)
  next
    case (Some qq)
    with rel obtain x where res: "res = Some x" and x: "abs_question ?h x = Some qq"
      by (cases res) auto
    note m = mapped_topic_run [OF x]
    note sc = h_get_score_percentage_run [OF r1 x]
    show ?thesis
    proof (cases "mapped_topic qq")
      case None
      with Some n res show ?thesis
        by (simp add: weak_topics_body_def py_bind_def start m return_run response_topics_def)
    next
      case (Some t)
      with \<open>py_next (\<lambda>y. question_id y = r_question_id rr) qs = Some qq\<close> n res show ?thesis
        by (simp add: weak_topics_body_def py_bind_def start m sc return_run response_topics_def
            append_str_run)
    qed
  qed
qed

lemma h_get_weak_topics_run:
  assumes s: "abs_student h a = Some st" and q: "abs_refs abs_question h ql = Some qs"
  shows "h_get_weak_topics a ql th h
      = (Inr (Suc (length h)),
         h @ [OStrs (concat (map (response_topics qs th) (responses st))),
              OStrs (py_list_set (concat (map (response_topics qs th) (responses st))))])"
proof -
  let ?h = "h @ [OStrs []]"
  let ?ws = "concat (map (response_topics qs th) (responses st))"
  from s have "abs_student ?h a = Some st"
    by (rule abs_student_append)
  then obtain rl rs where a: "lookup ?h a = Some (OStudent (student_id st) (name st) (section_of st) rl)"
    and l: "lookup ?h rl = Some (ORefs rs)"
    and r1: "list_all2 (\<lambda>x y. abs_response ?h x = Some y) rs (responses st)"
    by (auto simp: abs_student_Some abs_refs_Some)
  have g: "getattr a attr_responses ?h = (Inr rl, ?h)"
    by (rule getattr_run [OF a]) (simp add: return_run)
  from s obtain rl' rs' where a': "lookup h a = Some (OStudent (student_id st) (name st) (section_of st) rl')"
    and l': "lookup h rl' = Some (ORefs rs')"
    and r: "list_all2 (\<lambda>x y. abs_response h x = Some y) rs' (responses st)"
    by (auto simp: abs_student_Some abs_refs_Some)
  from a a' have "rl' = rl"
    by (simp add: lookup_Some nth_append)
  with l l' have "rs' = rs"
    by (simp add: lookup_Some nth_append)
  with r have r0: "list_all2 (\<lambda>x y. abs_response h x = Some y) rs (responses st)"
    by simp
  then have "list_all2 (\<lambda>x y. \<forall>acc. weak_topics_body ql th (length h) x (h @ [OStrs acc])
      = (Inr (), h @ [OStrs (acc @ response_topics qs th y)])) rs (responses st)"
    by (rule list_all2_mono) (simp add: weak_topics_body_run [OF _ q])
  then have "for_each (weak_topics_body ql th (length h)) rs (h @ [OStrs []])
      = (Inr (), h @ [OStrs ([] @ concat (map (\<lambda>(x, y). response_topics qs th y)
                                          (zip rs (responses st))))])"
    by (rule for_each_acc [where H = "\<lambda>acc. h @ [OStrs acc]"])
  moreover from r0 have "length rs = length (responses st)"
    by (rule list_all2_lengthD)
  then have "concat (map (\<lambda>(x, y). response_topics qs th y) (zip rs (responses st))) = ?ws"
    by (rule concat_zip_snd)
  ultimately have f: "for_each (weak_topics_body ql th (length h)) rs ?h = (Inr (), h @ [OStrs ?ws])"
    by simp
  have e: "list_of_set (length h) (h @ [OStrs ?ws])
      = (Inr (Suc (length h)), (h @ [OStrs ?ws]) @ [OStrs (py_list_set ?ws)])"
    using list_of_set_run [of "h @ [OStrs ?ws]" "length h" ?ws]
    by (simp add: lookup_Some)
  show ?thesis
    by (simp add: h_get_weak_topics_def py_bind_def alloc_def g load_refs_run [OF l] f e)
qed

subsection \<open>What the caller sees of a result\<close>

lemma see_scalars:
  "see h VNone = SNone" "see h (VBool b) = SBool b" "see h (VFloat x) = SFloat x"
  by (simp_all add: see_def)

lemma see_object_question: "abs_question h a = Some q \<Longrightarrow> see_object h a = SQuestion q"
  by (simp add: see_object_def)

lemma see_object_student:
  assumes "abs_student h a = Some s"
  shows "see_object h a = SStudent s"
proof -
  from assms obtain rl where "lookup h a = Some (OStudent (student_id s) (name s) (section_of s) rl)"
    by (auto simp: abs_student_Some)
  then have "abs_question h a = None"
    by (simp add: abs_question_def)
  with assms show ?thesis
    by (simp add: see_object_def)
qed

lemma see_object_topic:
  assumes "abs_topic h a = Some t"
  shows "see_object h a = STopic t"
proof -
  from assms obtain sl where "lookup h a = Some (OTopic (topic_name t) (description t) (week t) sl)"
    by (auto simp: abs_topic_Some)
  then have "abs_question h a = None" "abs_student h a = None"
    by (simp_all add: abs_question_def abs_student_def)
  with assms show ?thesis
    by (simp add: see_object_def)
qed

lemma see_question:
  assumes "abs_question h a = Some q"
  shows "see h (VRef a) = SQuestion q"
proof -
  from assms obtain sec where "lookup h a = Some (OQuestion (question_id q) (question_text q)
      (correct_answer q) (points q) (mapped_topic q) sec)"
    by (auto simp: abs_question_Some)
  then show ?thesis
    by (simp add: see_def see_object_question [OF assms])
qed

lemma see_student:
  assumes "abs_student h a = Some s"
  shows "see h (VRef a) = SStudent s"
proof -
  from assms obtain rl where "lookup h a = Some (OStudent (student_id s) (name s) (section_of s) rl)"
    by (auto simp: abs_student_Some)
  then show ?thesis
    by (simp add: see_def see_object_student [OF assms])
qed

lemma see_topic:
  assumes "abs_topic h a = Some t"
  shows "see h (VRef a) = STopic t"
proof -
  from assms obtain sl where "lookup h a = Some (OTopic (topic_name t) (description t) (week t) sl)"
    by (auto simp: abs_topic_Some)
  then show ?thesis
    by (simp add: see_def see_object_topic [OF assms])
qed

lemma see_new_refs: "see (h @ [ORefs xs]) (VRef (length h)) = SList (map (see_object (h @ [ORefs xs])) xs)"
  by (simp add: see_def lookup_def)

lemma see_new_strs: "see (h @ ys @ [OStrs xs]) (VRef (length h + length ys)) = SStrs xs"
  by (simp add: see_def lookup_def nth_append)

lemma see_students:
  "list_all2 (\<lambda>x y. abs_student h x = Some y) xs ys \<Longrightarrow> map (see_object h) xs = map SStudent ys"
  by (induction xs ys rule: list_all2_induct) (simp_all add: see_object_student)

lemma see_topics:
  "list_all2 (\<lambda>x y. abs_topic h x = Some y) xs ys \<Longrightarrow> map (see_object h) xs = map STopic ys"
  by (induction xs ys rule: list_all2_induct) (simp_all add: see_object_topic)

lemma see_opt_question:
  "rel_option (\<lambda>x y. abs_question h x = Some y) r v \<Longrightarrow>
   Inr (see h (case r of None \<Rightarrow> VNone | Some a \<Rightarrow> VRef a)) = opt_answer SQuestion v"
  by (cases r; cases v) (simp_all add: opt_answer_def see_scalars see_question)

lemma see_opt_student:
  "rel_option (\<lambda>x y. abs_student h x = Some y) r v \<Longrightarrow>
   Inr (see h (case r of None \<Rightarrow> VNone | Some a \<Rightarrow> VRef a)) = opt_answer SStudent v"
  by (cases r; cases v) (simp_all add: opt_answer_def see_scalars see_student)

lemma see_opt_topic:
  "rel_option (\<lambda>x y. abs_topic h x = Some y) r v \<Longrightarrow>
   Inr (see h (case r of None \<Rightarrow> VNone | Some a \<Rightarrow> VRef a)) = opt_answer STopic v"
  by (cases r; cases v) (simp_all add: opt_answer_def see_scalars see_topic)

subsection \<open>Each read call against the functions on records\<close>

lemma call_response_run:
  assumes "abs_response h a = Some rr" "abs_question h (question_arg f) = Some qq"
  shows "\<exists>r. call_response f a h = (r, h) \<and> see_outcome h r = response_answer f rr qq"
proof (cases f)
  case (Get_score_percentage q)
  with assms(2) have q: "abs_question h q = Some qq" by simp
  show ?thesis
    by (simp add: Get_score_percentage ret_float_def py_bind_def
        h_get_score_percentage_run [OF assms(1) q] return_run see_outcome_def see_scalars
        float_answer_def get_score_percentage_Inr)
qed

lemma call_student_run:
  assumes s: "abs_student h a = Some st" and q: "abs_refs abs_question h (questions_arg e) = Some qs"
  shows "\<exists>r ext. call_student e a h = (r, h @ ext) \<and> see_outcome (h @ ext) r = student_answer e st qs"
proof (cases e)
  case (Get_total_score ql)
  have run: "call_student e a h = (Inr (VFloat (get_total_score st qs)), h @ [])"
    by (simp add: Get_total_score ret_float_def py_bind_def h_get_total_score_run [OF s, where ql = ql and qs = qs] return_run)
  have "see_outcome (h @ []) (Inr (VFloat (get_total_score st qs))) = student_answer e st qs"
    by (simp add: Get_total_score see_outcome_def see_scalars)
  with run show ?thesis by blast
next
  case (Get_total_possible ql)
  with q have q': "abs_refs abs_question h ql = Some qs" by simp
  have run: "call_student e a h = (Inr (VFloat (get_total_possible st qs)), h @ [])"
    by (simp add: Get_total_possible ret_float_def py_bind_def
        h_get_total_possible_run [OF q', where a = a and s = st] return_run)
  have "see_outcome (h @ []) (Inr (VFloat (get_total_possible st qs))) = student_answer e st qs"
    by (simp add: Get_total_possible see_outcome_def see_scalars)
  with run show ?thesis by blast
next
  case (Get_percentage ql)
  with q have q': "abs_refs abs_question h ql = Some qs" by simp
  have run: "call_student e a h = (Inr (VFloat (percentage_value st qs)), h @ [])"
    by (simp add: Get_percentage ret_float_def py_bind_def h_get_percentage_run [OF s q']
        return_run)
  have "see_outcome (h @ []) (Inr (VFloat (percentage_value st qs))) = student_answer e st qs"
    by (simp add: Get_percentage see_outcome_def see_scalars float_answer_def get_percentage_Inr)
  with run show ?thesis by blast
next
  case (Get_weak_topics ql th)
  with q have q': "abs_refs abs_question h ql = Some qs" by simp
  let ?ws = "concat (map (response_topics qs th) (responses st))"
  have run: "call_student e a h
      = (Inr (VRef (Suc (length h))), h @ [OStrs ?ws, OStrs (py_list_set ?ws)])"
    by (simp add: Get_weak_topics ret_ref_def py_bind_def h_get_weak_topics_run [OF s q']
        return_run)
  have sn: "see (h @ [OStrs ?ws, OStrs (py_list_set ?ws)]) (VRef (Suc (length h)))
      = SStrs (py_list_set ?ws)"
    using see_new_strs [of h "[OStrs ?ws]" "py_list_set ?ws"] by simp
  have pure: "get_weak_topics st qs th = Inr (py_list_set ?ws)"
    by (simp add: get_weak_topics_def weak_topics_loop_closed)
  have "see_outcome (h @ [OStrs ?ws, OStrs (py_list_set ?ws)]) (Inr (VRef (Suc (length h))))
      = student_answer e st qs"
    by (simp add: Get_weak_topics see_outcome_def sn pure)
  with run show ?thesis by blast
qed

lemma call_quiz_run:
  assumes z: "abs_quiz h a = Some qz" and rd: "quiz_read c"
  shows "\<exists>r ext. call_quiz c a h = (r, h @ ext) \<and> see_outcome (h @ ext) r = quiz_answer c qz"
proof (cases c)
  case (Add_question q)
  with rd show ?thesis by simp
next
  case (Add_student s)
  with rd show ?thesis by simp
next
  case (Get_question_by_id qid)
  from h_get_question_by_id_run [OF z, of qid]
  obtain r where run: "h_get_question_by_id a qid h = (Inr r, h)"
    and rel: "rel_option (\<lambda>x y. abs_question h x = Some y) r (get_question_by_id qz qid)"
    by blast
  have run: "call_quiz c a h = (Inr (case r of None \<Rightarrow> VNone | Some x \<Rightarrow> VRef x), h @ [])"
    by (simp add: Get_question_by_id ret_opt_def py_bind_def run return_run)
  have "see_outcome (h @ []) (Inr (case r of None \<Rightarrow> VNone | Some x \<Rightarrow> VRef x)) = quiz_answer c qz"
    by (simp add: Get_question_by_id see_outcome_def see_opt_question [OF rel])
  with run show ?thesis by blast
next
  case (Get_student_by_id sid)
  from h_get_student_by_id_run [OF z, of sid]
  obtain r where run: "h_get_student_by_id a sid h = (Inr r, h)"
    and rel: "rel_option (\<lambda>x y. abs_student h x = Some y) r (get_student_by_id qz sid)"
    by blast
  have run: "call_quiz c a h = (Inr (case r of None \<Rightarrow> VNone | Some x \<Rightarrow> VRef x), h @ [])"
    by (simp add: Get_student_by_id ret_opt_def py_bind_def run return_run)
  have "see_outcome (h @ []) (Inr (case r of None \<Rightarrow> VNone | Some x \<Rightarrow> VRef x)) = quiz_answer c qz"
    by (simp add: Get_student_by_id see_outcome_def see_opt_student [OF rel])
  with run show ?thesis by blast
next
  case Get_class_average
  from h_get_class_average_run [OF z]
  obtain v where run: "h_get_class_average a h = (Inr v, h)" and p: "get_class_average qz = Inr v"
    by blast
  have run: "call_quiz c a h = (Inr (VFloat v), h @ [])"
    by (simp add: Get_class_average ret_float_def py_bind_def run return_run)
  have "see_outcome (h @ []) (Inr (VFloat v)) = quiz_answer c qz"
    by (simp add: Get_class_average see_outcome_def see_scalars float_answer_def p)
  with run show ?thesis by blast
next
  case (Get_students_by_section sec)
  from h_get_students_by_section_run [OF z, of sec]
  obtain rs where run: "h_get_students_by_section a sec h = (Inr (length h), h @ [ORefs rs])"
    and rel: "list_all2 (\<lambda>x y. abs_student h x = Some y) rs (get_students_by_section qz sec)"
    by blast
  from rel have "list_all2 (\<lambda>x y. abs_student (h @ [ORefs rs]) x = Some y) rs
      (get_students_by_section qz sec)"
    by (rule list_all2_mono) (rule abs_student_append)
  then have m: "map (see_object (h @ [ORefs rs])) rs = map SStudent (get_students_by_section qz sec)"
    by (rule see_students)
  have run: "call_quiz c a h = (Inr (VRef (length h)), h @ [ORefs rs])"
    by (simp add: Get_students_by_section ret_ref_def py_bind_def run return_run)
  have "see_outcome (h @ [ORefs rs]) (Inr (VRef (length h))) = quiz_answer c qz"
    by (simp add: Get_students_by_section see_outcome_def see_new_refs m)
  with run show ?thesis by blast
next
  case (Get_section_average sec)
  from h_get_section_average_run [OF z, of sec]
  obtain rs v where run: "h_get_section_average a sec h = (Inr v, h @ [ORefs rs])"
    and p: "get_section_average qz sec = Inr v"
    by blast
  have run: "call_quiz c a h = (Inr (VFloat v), h @ [ORefs rs])"
    by (simp add: Get_section_average ret_float_def py_bind_def run return_run)
  have "see_outcome (h @ [ORefs rs]) (Inr (VFloat v)) = quiz_answer c qz"
    by (simp add: Get_section_average see_outcome_def see_scalars float_answer_def p)
  with run show ?thesis by blast
next
  case Get_all_sections
  let ?xs = "map section_of (students qz)"
  have run: "call_quiz c a h
      = (Inr (VRef (Suc (length h))), h @ [OStrs ?xs, OStrs (get_all_sections qz)])"
    by (simp add: Get_all_sections ret_ref_def py_bind_def h_get_all_sections_run [OF z] return_run)
  have sn: "see (h @ [OStrs ?xs, OStrs (get_all_sections qz)]) (VRef (Suc (length h)))
      = SStrs (get_all_sections qz)"
    using see_new_strs [of h "[OStrs ?xs]" "get_all_sections qz"] by simp
  have "see_outcome (h @ [OStrs ?xs, OStrs (get_all_sections qz)]) (Inr (VRef (Suc (length h))))
      = quiz_answer c qz"
    by (simp add: Get_all_sections see_outcome_def sn)
  with run show ?thesis by blast
qed

lemma call_topic_run:
  assumes "abs_topic h a = Some t"
  shows "\<exists>r. call_topic g a h = (r, h) \<and> see_outcome h r = topic_answer g t"
proof (cases g)
  case (Contains_keyword k)
  show ?thesis
    by (simp add: Contains_keyword ret_bool_def py_bind_def h_contains_keyword_run [OF assms]
        return_run see_outcome_def see_scalars)
qed

lemma call_syllabus_run:
  assumes y: "abs_syllabus h a = Some syl" and rd: "syllabus_read d"
  shows "\<exists>r ext. call_syllabus d a h = (r, h @ ext)
           \<and> see_outcome (h @ ext) r = syllabus_answer d syl"
proof (cases d)
  case (Add_topic t)
  with rd show ?thesis by simp
next
  case (Get_topic_by_name n)
  from h_get_topic_by_name_run [OF y, of n]
  obtain r where run: "h_get_topic_by_name a n h = (Inr r, h)"
    and rel: "rel_option (\<lambda>x y. abs_topic h x = Some y) r (get_topic_by_name syl n)"
    by blast
  have run: "call_syllabus d a h = (Inr (case r of None \<Rightarrow> VNone | Some x \<Rightarrow> VRef x), h @ [])"
    by (simp add: Get_topic_by_name ret_opt_def py_bind_def run return_run)
  have "see_outcome (h @ []) (Inr (case r of None \<Rightarrow> VNone | Some x \<Rightarrow> VRef x)) = syllabus_answer d syl"
    by (simp add: Get_topic_by_name see_outcome_def see_opt_topic [OF rel])
  with run show ?thesis by blast
next
  case (Search_topics k)
  from h_search_topics_run [OF y, of k]
  obtain rs where run: "h_search_topics a k h = (Inr (length h), h @ [ORefs rs])"
    and rel: "list_all2 (\<lambda>x y. abs_topic h x = Some y) rs (search_topics syl k)"
    by blast
  from rel have "list_all2 (\<lambda>x y. abs_topic (h @ [ORefs rs]) x = Some y) rs (search_topics syl k)"
    by (rule list_all2_mono) (rule abs_topic_append)
  then have m: "map (see_object (h @ [ORefs rs])) rs = map STopic (search_topics syl k)"
    by (rule see_topics)
  have run: "call_syllabus d a h = (Inr (VRef (length h)), h @ [ORefs rs])"
    by (simp add: Search_topics ret_ref_def py_bind_def run return_run)
  have "see_outcome (h @ [ORefs rs]) (Inr (VRef (length h))) = syllabus_answer d syl"
    by (simp add: Search_topics see_outcome_def see_new_refs m)
  with run show ?thesis by blast
next
  case Get_all_topic_names
  have run: "call_syllabus d a h = (Inr (VRef (length h)), h @ [OStrs (get_all_topic_names syl)])"
    by (simp add: Get_all_topic_names ret_ref_def py_bind_def h_get_all_topic_names_run [OF y]
        return_run)
  have sn: "see (h @ [OStrs (get_all_topic_names syl)]) (VRef (length h))
      = SStrs (get_all_topic_names syl)"
    using see_new_strs [of h "[]" "get_all_topic_names syl"] by simp
  have "see_outcome (h @ [OStrs (get_all_topic_names syl)]) (Inr (VRef (length h)))
      = syllabus_answer d syl"
    by (simp add: Get_all_topic_names see_outcome_def sn)
  with run show ?thesis by blast
qed

subsection \<open>Mutators are seen to change the store\<close>

lemma append_ref_changes:
  assumes "lookup h l = Some (ORefs xs)"
  shows "append_ref l x h = (Inr (), h[l := ORefs (xs @ [x])])" "h[l := ORefs (xs @ [x])] \<noteq> h"
proof -
  from assms have l: "l < length h" "h ! l = ORefs xs"
    by (simp_all add: lookup_Some)
  show "append_ref l x h = (Inr (), h[l := ORefs (xs @ [x])])"
    by (simp add: append_ref_def py_bind_def load_refs_run [OF assms] store_def l)
  have "h[l := ORefs (xs @ [x])] ! l \<noteq> h ! l"
    using l by simp
  then show "h[l := ORefs (xs @ [x])] \<noteq> h"
    by auto
qed

lemma add_question_changes_store:
  assumes "abs_quiz h a = Some qz"
  shows "snd (call_quiz (Add_question q) a h) \<noteq> h"
proof -
  from assms obtain ql sl xs where a: "lookup h a = Some (OQuiz (quiz_name qz) (course_name qz) (quiz_date qz) ql sl)"
    and l: "lookup h ql = Some (ORefs xs)"
    by (auto simp: abs_quiz_Some abs_refs_Some)
  have g: "getattr a attr_questions h = (Inr ql, h)"
    by (rule getattr_run [OF a]) (simp add: return_run)
  have "call_quiz (Add_question q) a h = (Inr VNone, h[ql := ORefs (xs @ [q])])"
    by (simp add: ret_none_def h_add_question_def py_bind_def g append_ref_changes(1) [OF l]
        return_run)
  with append_ref_changes(2) [OF l] show ?thesis by simp
qed

lemma add_student_changes_store:
  assumes "abs_quiz h a = Some qz"
  shows "snd (call_quiz (Add_student s) a h) \<noteq> h"
proof -
  from assms obtain ql sl xs where a: "lookup h a = Some (OQuiz (quiz_name qz) (course_name qz) (quiz_date qz) ql sl)"
    and l: "lookup h sl = Some (ORefs xs)"
    by (auto simp: abs_quiz_Some abs_refs_Some)
  have g: "getattr a attr_students h = (Inr sl, h)"
    by (rule getattr_run [OF a]) (simp add: return_run)
  have "call_quiz (Add_student s) a h = (Inr VNone, h[sl := ORefs (xs @ [s])])"
    by (simp add: ret_none_def h_add_student_def py_bind_def g append_ref_changes(1) [OF l]
        return_run)
  with append_ref_changes(2) [OF l] show ?thesis by simp
qed

lemma add_topic_changes_store:
  assumes "abs_syllabus h a = Some syl"
  shows "snd (call_syllabus (Add_topic t) a h) \<noteq> h"
proof -
  from assms obtain tpl xs where a: "lookup h a = Some (OSyllabus (syllabus_course_name syl) (course_code syl) tpl (raw_text syl))"
    and l: "lookup h tpl = Some (ORefs xs)"
    by (auto simp: abs_syllabus_Some abs_refs_Some)
  have g: "getattr a attr_topics h = (Inr tpl, h)"
    by (rule getattr_run [OF a]) (simp add: return_run)
  have "call_syllabus (Add_topic t) a h = (Inr VNone, h[tpl := ORefs (xs @ [t])])"
    by (simp add: ret_none_def h_add_topic_def py_bind_def g append_ref_changes(1) [OF l]
        return_run)
  with append_ref_changes(2) [OF l] show ?thesis by simp
qed

subsection \<open>Read operations leave the objects as they are\<close>

text \<open>
  C9. On a store in which the quiz (the syllabus, the student and the question list passed
  to it, the response and its question, the topic) is well formed, every read operation
  returns a store that begins with the store it was called on: every object that existed
  before the call, with all its fields and list items, is the same after it, and new list
  objects come after them. The quiz, syllabus, student, question list, response and topic
  read back from the store are therefore the same records as before. A second call of the
  same operation, on the store the first call left, returns what the first returned, as the
  caller sees it; and that is the value of the corresponding function on records.
\<close>

theorem read_calls_leave_store:
  "(abs_quiz h a = Some qz \<and> quiz_read c
      \<and> call_quiz c a h = (r, h') \<and> call_quiz c a h' = (r', h'')
     \<longrightarrow> prefix h h' \<and> abs_quiz h' a = Some qz
         \<and> see_outcome h'' r' = see_outcome h' r \<and> see_outcome h' r = quiz_answer c qz)
   \<and> (abs_syllabus h a = Some syl \<and> syllabus_read d
      \<and> call_syllabus d a h = (r, h') \<and> call_syllabus d a h' = (r', h'')
     \<longrightarrow> prefix h h' \<and> abs_syllabus h' a = Some syl
         \<and> see_outcome h'' r' = see_outcome h' r \<and> see_outcome h' r = syllabus_answer d syl)
   \<and> (abs_student h a = Some st \<and> abs_refs abs_question h (questions_arg e) = Some qs
      \<and> call_student e a h = (r, h') \<and> call_student e a h' = (r', h'')
     \<longrightarrow> prefix h h' \<and> abs_student h' a = Some st
         \<and> abs_refs abs_question h' (questions_arg e) = Some qs
         \<and> see_outcome h'' r' = see_outcome h' r \<and> see_outcome h' r = student_answer e st qs)
   \<and> (abs_response h a = Some rr \<and> abs_question h (question_arg f) = Some qq
      \<and> call_response f a h = (r, h') \<and> call_response f a h' = (r', h'')
     \<longrightarrow> h' = h \<and> r' = r \<and> see_outcome h' r = response_answer f rr qq)
   \<and> (abs_topic h a = Some t \<and> call_topic g a h = (r, h') \<and> call_topic g a h' = (r', h'')
     \<longrightarrow> h' = h \<and> r' = r \<and> see_outcome h' r = topic_answer g t)"
proof (intro conjI)
  show "abs_quiz h a = Some qz \<and> quiz_read c
      \<and> call_quiz c a h = (r, h') \<and> call_quiz c a h' = (r', h'')
     \<longrightarrow> prefix h h' \<and> abs_quiz h' a = Some qz
      \<and> see_outcome h'' r' = see_outcome h' r \<and> see_outcome h' r = quiz_answer c qz"
  proof
    assume p: "abs_quiz h a = Some qz \<and> quiz_read c
        \<and> call_quiz c a h = (r, h') \<and> call_quiz c a h' = (r', h'')"
    then obtain ext where h': "h' = h @ ext" and s1: "see_outcome h' r = quiz_answer c qz"
      using call_quiz_run [of h a qz c] by auto
    from p h' have z: "abs_quiz h' a = Some qz"
      by (simp add: abs_quiz_append)
    with p have s2: "see_outcome h'' r' = quiz_answer c qz"
      using call_quiz_run [of h' a qz c] by auto
    from h' z s1 s2 show "prefix h h' \<and> abs_quiz h' a = Some qz
      \<and> see_outcome h'' r' = see_outcome h' r \<and> see_outcome h' r = quiz_answer c qz"
      by simp
  qed
next
  show "abs_syllabus h a = Some syl \<and> syllabus_read d
      \<and> call_syllabus d a h = (r, h') \<and> call_syllabus d a h' = (r', h'')
     \<longrightarrow> prefix h h' \<and> abs_syllabus h' a = Some syl
      \<and> see_outcome h'' r' = see_outcome h' r \<and> see_outcome h' r = syllabus_answer d syl"
  proof
    assume p: "abs_syllabus h a = Some syl \<and> syllabus_read d
        \<and> call_syllabus d a h = (r, h') \<and> call_syllabus d a h' = (r', h'')"
    then obtain ext where h': "h' = h @ ext" and s1: "see_outcome h' r = syllabus_answer d syl"
      using call_syllabus_run [of h a syl d] by auto
    from p h' have z: "abs_syllabus h' a = Some syl"
      by (simp add: abs_syllabus_append)
    with p have s2: "see_outcome h'' r' = syllabus_answer d syl"
      using call_syllabus_run [of h' a syl d] by auto
    from h' z s1 s2 show "prefix h h' \<and> abs_syllabus h' a = Some syl
      \<and> see_outcome h'' r' = see_outcome h' r \<and> see_outcome h' r = syllabus_answer d syl"
      by simp
  qed
next
  show "abs_student h a = Some st \<and> abs_refs abs_question h (questions_arg e) = Some qs
      \<and> call_student e a h = (r, h') \<and> call_student e a h' = (r', h'')
     \<longrightarrow> prefix h h' \<and> abs_student h' a = Some st
      \<and> abs_refs abs_question h' (questions_arg e) = Some qs
      \<and> see_outcome h'' r' = see_outcome h' r \<and> see_outcome h' r = student_answer e st qs"
  proof
    assume p: "abs_student h a = Some st \<and> abs_refs abs_question h (questions_arg e) = Some qs
        \<and> call_student e a h = (r, h') \<and> call_student e a h' = (r', h'')"
    then obtain ext where h': "h' = h @ ext" and s1: "see_outcome h' r = student_answer e st qs"
      using call_student_run [of h a st e qs] by auto
    from p h' have z: "abs_student h' a = Some st"
      "abs_refs abs_question h' (questions_arg e) = Some qs"
      by (simp_all add: abs_student_append abs_questions_append)
    with p have s2: "see_outcome h'' r' = student_answer e st qs"
      using call_student_run [of h' a st e qs] by auto
    from h' z s1 s2 show "prefix h h' \<and> abs_student h' a = Some st
      \<and> abs_refs abs_question h' (questions_arg e) = Some qs
      \<and> see_outcome h'' r' = see_outcome h' r \<and> see_outcome h' r = student_answer e st qs"
      by simp
  qed
next
  show "abs_response h a = Some rr \<and> abs_question h (question_arg f) = Some qq
      \<and> call_response f a h = (r, h') \<and> call_response f a h' = (r', h'')
     \<longrightarrow> h' = h \<and> r' = r \<and> see_outcome h' r = response_answer f rr qq"
  proof
    assume p: "abs_response h a = Some rr \<and> abs_question h (question_arg f) = Some qq
        \<and> call_response f a h = (r, h') \<and> call_response f a h' = (r', h'')"
    then have "h' = h" and s1: "see_outcome h' r = response_answer f rr qq"
      using call_response_run [of h a rr f qq] by auto
    with p show "h' = h \<and> r' = r \<and> see_outcome h' r = response_answer f rr qq"
      by auto
  qed
next
  show "abs_topic h a = Some t \<and> call_topic g a h = (r, h') \<and> call_topic g a h' = (r', h'')
     \<longrightarrow> h' = h \<and> r' = r \<and> see_outcome h' r = topic_answer g t"
  proof
    assume p: "abs_topic h a = Some t \<and> call_topic g a h = (r, h') \<and> call_topic g a h' = (r', h'')"
    then have "h' = h" and s1: "see_outcome h' r = topic_answer g t"
      using call_topic_run [of h a t g] by auto
    with p show "h' = h \<and> r' = r \<and> see_outcome h' r = topic_answer g t"
      by auto
  qed
qed

lemmas store_defs = ex_store_def ex_store_student_def ex_store_quiz_def ex_store_topic_def
  ex_store_syllabus_def mk_question_def mk_student_def mk_response_def

lemmas abs_defs = abs_quiz_def abs_refs_def abs_question_def abs_student_def abs_response_def
  abs_strs_def abs_topic_def abs_syllabus_def lookup_def

lemmas prog_defs = py_bind_def py_return_def py_raise_def load_def alloc_def store_def getattr_def
  load_refs_def load_strs_def append_ref_def append_str_def comp_refs_def comp_strs_def
  list_of_set_def ret_float_def ret_ref_def ret_opt_def ret_bool_def ret_none_def truediv_def
  py_truediv_def

lemma ex_store_abs:
  "abs_quiz ex_store 7 = Some ex_store_quiz"
  "abs_syllabus ex_store 11 = Some ex_store_syllabus"
  "abs_student ex_store 5 = Some ex_store_student"
  "abs_refs abs_question ex_store 2 = Some [mk_question 1 10 (Some ''Recursion'')]"
  "abs_response ex_store 3 = Some (mk_response 1 4)"
  "abs_question ex_store 1 = Some (mk_question 1 10 (Some ''Recursion''))"
  "abs_topic ex_store 9 = Some ex_store_topic"
  by (simp_all add: store_defs abs_defs)

lemma ex_students_by_section_1:
  "call_quiz (Get_students_by_section ''A'') 7 ex_store = (Inr (VRef 12), ex_store @ [ORefs [5]])"
  by (simp add: store_defs prog_defs h_get_students_by_section_def)

lemma ex_students_by_section_2:
  "call_quiz (Get_students_by_section ''A'') 7 (ex_store @ [ORefs [5]])
     = (Inr (VRef 13), ex_store @ [ORefs [5], ORefs [5]])"
  by (simp add: store_defs prog_defs h_get_students_by_section_def)

lemma ex_weak_topics_call:
  "call_student (Get_weak_topics 2 70) 5 ex_store
     = (Inr (VRef 13), ex_store @ [OStrs [''Recursion''], OStrs [''Recursion'']])"
  by (simp add: store_defs prog_defs h_get_weak_topics_def weak_topics_body_def
      h_get_score_percentage_def py_list_set_def)

lemma ex_search_call:
  "call_syllabus (Search_topics ''loop'') 11 ex_store = (Inr (VRef 12), ex_store @ [ORefs [9]])"
  by (simp add: store_defs prog_defs h_search_topics_def h_contains_keyword_def Let_def
      py_lower_def lower_char_def)

lemma ex_score_call:
  "call_response (Get_score_percentage 1) 3 ex_store = (Inr (VFloat 40), ex_store)"
  by (simp add: store_defs prog_defs h_get_score_percentage_def)

lemma ex_keyword_call:
  "call_topic (Contains_keyword ''loop'') 9 ex_store = (Inr (VBool True), ex_store)"
  by (simp add: store_defs prog_defs h_contains_keyword_def Let_def py_lower_def lower_char_def)

lemma ex_answers:
  "quiz_answer (Get_students_by_section ''A'') ex_store_quiz = Inr (SList [SStudent ex_store_student])"
  "syllabus_answer (Search_topics ''loop'') ex_store_syllabus = Inr (SList [STopic ex_store_topic])"
  "student_answer (Get_weak_topics 2 70) ex_store_student [mk_question 1 10 (Some ''Recursion'')]
     = Inr (SStrs [''Recursion''])"
  "response_answer (Get_score_percentage 1) (mk_response 1 4) (mk_question 1 10 (Some ''Recursion''))
     = Inr (SFloat 40)"
  "topic_answer (Contains_keyword ''loop'') ex_store_topic = Inr (SBool True)"
  by (simp_all add: store_defs get_students_by_section_def search_topics_def contains_keyword_def
      Let_def py_lower_def lower_char_def get_weak_topics_def get_score_percentage_Inr
      py_list_set_def float_answer_def)

theorem read_calls_leave_store_witness:
  "abs_quiz ex_store 7 = Some ex_store_quiz
   \<and> quiz_read (Get_students_by_section ''A'')
   \<and> call_quiz (Get_students_by_section ''A'') 7 ex_store = (Inr (VRef 12), ex_store @ [ORefs [5]])
   \<and> call_quiz (Get_students_by_section ''A'') 7 (ex_store @ [ORefs [5]])
       = (Inr (VRef 13), ex_store @ [ORefs [5], ORefs [5]])
   \<and> prefix ex_store (ex_store @ [ORefs [5]])
   \<and> abs_quiz (ex_store @ [ORefs [5]]) 7 = Some ex_store_quiz
   \<and> see_outcome (ex_store @ [ORefs [5]]) (Inr (VRef 12)) = Inr (SList [SStudent ex_store_student])
   \<and> see_outcome (ex_store @ [ORefs [5], ORefs [5]]) (Inr (VRef 13))
       = Inr (SList [SStudent ex_store_student])
   \<and> abs_syllabus ex_store 11 = Some ex_store_syllabus
   \<and> syllabus_read (Search_topics ''loop'')
   \<and> call_syllabus (Search_topics ''loop'') 11 ex_store = (Inr (VRef 12), ex_store @ [ORefs [9]])
   \<and> abs_syllabus (ex_store @ [ORefs [9]]) 11 = Some ex_store_syllabus
   \<and> see_outcome (ex_store @ [ORefs [9]]) (Inr (VRef 12)) = Inr (SList [STopic ex_store_topic])
   \<and> abs_student ex_store 5 = Some ex_store_student
   \<and> abs_refs abs_question ex_store 2 = Some [mk_question 1 10 (Some ''Recursion'')]
   \<and> call_student (Get_weak_topics 2 70) 5 ex_store
       = (Inr (VRef 13), ex_store @ [OStrs [''Recursion''], OStrs [''Recursion'']])
   \<and> abs_student (ex_store @ [OStrs [''Recursion''], OStrs [''Recursion'']]) 5
       = Some ex_store_student
   \<and> see_outcome (ex_store @ [OStrs [''Recursion''], OStrs [''Recursion'']]) (Inr (VRef 13))
       = Inr (SStrs [''Recursion''])
   \<and> abs_response ex_store 3 = Some (mk_response 1 4)
   \<and> abs_question ex_store 1 = Some (mk_question 1 10 (Some ''Recursion''))
   \<and> call_response (Get_score_percentage 1) 3 ex_store = (Inr (VFloat 40), ex_store)
   \<and> see_outcome ex_store (Inr (VFloat 40)) = Inr (SFloat 40)
   \<and> abs_topic ex_store 9 = Some ex_store_topic
   \<and> call_topic (Contains_keyword ''loop'') 9 ex_store = (Inr (VBool True), ex_store)
   \<and> see_outcome ex_store (Inr (VBool True)) = Inr (SBool True)"
proof -
  have rd: "quiz_read (Get_students_by_section ''A'')" "syllabus_read (Search_topics ''loop'')"
    by simp_all
  have "prefix ex_store (ex_store @ [ORefs [5]])
      \<and> abs_quiz (ex_store @ [ORefs [5]]) 7 = Some ex_store_quiz
      \<and> see_outcome (ex_store @ [ORefs [5], ORefs [5]]) (Inr (VRef 13))
          = see_outcome (ex_store @ [ORefs [5]]) (Inr (VRef 12))
      \<and> see_outcome (ex_store @ [ORefs [5]]) (Inr (VRef 12))
          = quiz_answer (Get_students_by_section ''A'') ex_store_quiz"
    using read_calls_leave_store
      [where h = ex_store and a = 7 and qz = ex_store_quiz and c = "Get_students_by_section ''A''"
        and r = "Inr (VRef 12)" and h' = "ex_store @ [ORefs [5]]"
        and r' = "Inr (VRef 13)" and h'' = "ex_store @ [ORefs [5], ORefs [5]]"]
      ex_store_abs(1) rd(1) ex_students_by_section_1 ex_students_by_section_2
    by blast
  then have quiz: "prefix ex_store (ex_store @ [ORefs [5]])"
    "abs_quiz (ex_store @ [ORefs [5]]) 7 = Some ex_store_quiz"
    "see_outcome (ex_store @ [ORefs [5]]) (Inr (VRef 12)) = Inr (SList [SStudent ex_store_student])"
    "see_outcome (ex_store @ [ORefs [5], ORefs [5]]) (Inr (VRef 13))
       = Inr (SList [SStudent ex_store_student])"
    using ex_answers by simp_all
  let ?h1 = "ex_store @ [ORefs [9]]"
  have "abs_syllabus ?h1 11 = Some ex_store_syllabus
      \<and> see_outcome ?h1 (Inr (VRef 12)) = syllabus_answer (Search_topics ''loop'') ex_store_syllabus"
    using read_calls_leave_store
      [where h = ex_store and a = 11 and syl = ex_store_syllabus and d = "Search_topics ''loop''"
        and r = "Inr (VRef 12)" and h' = ?h1
        and r' = "fst (call_syllabus (Search_topics ''loop'') 11 ?h1)"
        and h'' = "snd (call_syllabus (Search_topics ''loop'') 11 ?h1)"]
      ex_store_abs(2) rd(2) ex_search_call
    by simp
  then have syl: "abs_syllabus ?h1 11 = Some ex_store_syllabus"
    "see_outcome ?h1 (Inr (VRef 12)) = Inr (SList [STopic ex_store_topic])"
    using ex_answers by simp_all
  let ?h2 = "ex_store @ [OStrs [''Recursion''], OStrs [''Recursion'']]"
  have "abs_student ?h2 5 = Some ex_store_student
      \<and> see_outcome ?h2 (Inr (VRef 13))
          = student_answer (Get_weak_topics 2 70) ex_store_student
              [mk_question 1 10 (Some ''Recursion'')]"
    using read_calls_leave_store
      [where h = ex_store and a = 5 and st = ex_store_student and e = "Get_weak_topics 2 70"
        and qs = "[mk_question 1 10 (Some ''Recursion'')]"
        and r = "Inr (VRef 13)" and h' = ?h2
        and r' = "fst (call_student (Get_weak_topics 2 70) 5 ?h2)"
        and h'' = "snd (call_student (Get_weak_topics 2 70) 5 ?h2)"]
      ex_store_abs(3,4) ex_weak_topics_call
    by simp
  then have stu: "abs_student ?h2 5 = Some ex_store_student"
    "see_outcome ?h2 (Inr (VRef 13)) = Inr (SStrs [''Recursion''])"
    using ex_answers by simp_all
  have "see_outcome ex_store (Inr (VFloat 40))
      = response_answer (Get_score_percentage 1) (mk_response 1 4)
          (mk_question 1 10 (Some ''Recursion''))"
    using read_calls_leave_store
      [where h = ex_store and a = 3 and rr = "mk_response 1 4" and f = "Get_score_percentage 1"
        and qq = "mk_question 1 10 (Some ''Recursion'')"
        and r = "Inr (VFloat 40)" and h' = ex_store and r' = "Inr (VFloat 40)" and h'' = ex_store]
      ex_store_abs(5,6) ex_score_call
    by simp
  then have rsp: "see_outcome ex_store (Inr (VFloat 40)) = Inr (SFloat 40)"
    using ex_answers by simp
  have "see_outcome ex_store (Inr (VBool True))
      = topic_answer (Contains_keyword ''loop'') ex_store_topic"
    using read_calls_leave_store
      [where h = ex_store and a = 9 and t = ex_store_topic and g = "Contains_keyword ''loop''"
        and r = "Inr (VBool True)" and h' = ex_store and r' = "Inr (VBool True)" and h'' = ex_store]
      ex_store_abs(7) ex_keyword_call
    by simp
  then have tpc: "see_outcome ex_store (Inr (VBool True)) = Inr (SBool True)"
    using ex_answers by simp
  from ex_store_abs rd ex_students_by_section_1 ex_students_by_section_2 ex_weak_topics_call
    ex_search_call ex_score_call ex_keyword_call quiz syl stu rsp tpc
  show ?thesis
    by (intro conjI)
qed

end
